theory Spec2Isabelle
  imports Complex_Main
begin

section \<open>Conventions of the embedding\<close>

text \<open>
  The two programs of the repository, \<^verbatim>\<open>batman_arkham_2d.py\<close> and
  \<^verbatim>\<open>batman_arkham_shadows.py\<close>, are embedded side by side. Names of the second
  program carry the prefix \<^verbatim>\<open>s_\<close> (\<^verbatim>\<open>S_\<close> for constants and enum members), since
  both programs declare classes and fields of the same names.

  Python \<^verbatim>\<open>int\<close> is \<^typ>\<open>int\<close>. Python \<^verbatim>\<open>float\<close> is \<^typ>\<open>rat\<close>: arithmetic is
  exact, the rounding of IEEE doubles is not modelled. Calls into the audio and graphics
  collaborators (\<^verbatim>\<open>MUSIC.play_sfx\<close>, drawing) have no effect on the simulation state and
  are left out. A method that mutates \<^verbatim>\<open>self\<close> becomes a function returning the new
  object, paired with the method's return value when it has one.
\<close>

definition py_int :: "rat \<Rightarrow> int" where
  \<comment> \<open>Python's \<^verbatim>\<open>int(f)\<close> on a float: truncation toward zero.\<close>
  "py_int q = (if 0 \<le> q then \<lfloor>q\<rfloor> else \<lceil>q\<rceil>)"

datatype py_error = ZeroDivisionError

section \<open>batman\_arkham\_2d.py: configuration\<close>

definition GRAVITY :: rat where "GRAVITY = 8 / 10"
definition GROUND_LEVEL :: int where "GROUND_LEVEL = 550"
definition LEVEL_WIDTH :: int where "LEVEL_WIDTH = 8000"

definition MAX_HEALTH :: int where "MAX_HEALTH = 120"
definition MOVE_SPEED :: rat where "MOVE_SPEED = 7"
definition MAX_JUMPS :: int where "MAX_JUMPS = 2"
definition PUNCH_DAMAGE :: int where "PUNCH_DAMAGE = 35"
definition KICK_DAMAGE :: int where "KICK_DAMAGE = 45"
definition BATARANG_DAMAGE :: int where "BATARANG_DAMAGE = 20"
definition PUNCH_RANGE :: int where "PUNCH_RANGE = 70"
definition KICK_RANGE :: int where "KICK_RANGE = 85"
definition BATARANG_SPEED :: rat where "BATARANG_SPEED = 18"
definition BATARANG_MAX_DISTANCE :: int where "BATARANG_MAX_DISTANCE = 600"
definition PUNCH_COOLDOWN :: int where "PUNCH_COOLDOWN = 12"
definition KICK_COOLDOWN :: int where "KICK_COOLDOWN = 20"
definition BATARANG_COOLDOWN :: int where "BATARANG_COOLDOWN = 35"
definition HIT_INVINCIBILITY :: int where "HIT_INVINCIBILITY = 60"
definition COMBO_WINDOW :: int where "COMBO_WINDOW = 100"
definition COMBO_DAMAGE_BONUS :: rat where "COMBO_DAMAGE_BONUS = 15 / 100"
definition MAX_COMBO_MULTIPLIER :: rat where "MAX_COMBO_MULTIPLIER = 25 / 10"

lemmas player_stats_defs =
  MAX_HEALTH_def MOVE_SPEED_def MAX_JUMPS_def PUNCH_DAMAGE_def KICK_DAMAGE_def
  BATARANG_DAMAGE_def PUNCH_RANGE_def KICK_RANGE_def BATARANG_SPEED_def
  BATARANG_MAX_DISTANCE_def PUNCH_COOLDOWN_def KICK_COOLDOWN_def BATARANG_COOLDOWN_def
  HIT_INVINCIBILITY_def COMBO_WINDOW_def COMBO_DAMAGE_BONUS_def MAX_COMBO_MULTIPLIER_def

text \<open>
  \<^verbatim>\<open>EnemyConfig\<close>; the two colour fields are presentation only and are left out.
\<close>

record EnemyConfig =
  cfg_name :: string
  is_boss :: bool
  cfg_health :: int
  cfg_damage :: int
  cfg_speed :: rat
  cfg_attack_range :: int
  cfg_attack_cooldown :: int
  cfg_width :: int
  cfg_height :: int
  can_block :: bool
  can_dodge :: bool
  has_projectile :: bool
  projectile_damage :: int
  projectile_speed :: rat
  aggression :: rat
  patrol_range :: int
  score_value :: int
  health_drop_chance :: rat


definition joker_thug :: EnemyConfig where
  \<comment> \<open>\<^verbatim>\<open>ENEMY_CONFIGS["joker_thug"]\<close>\<close>
  "joker_thug = \<lparr> cfg_name = ''Joker Thug'', is_boss = False, cfg_health = 60,
     cfg_damage = 10, cfg_speed = 5 / 2, cfg_attack_range = 50, cfg_attack_cooldown = 45,
     cfg_width = 50, cfg_height = 80, can_block = False, can_dodge = False,
     has_projectile = False, projectile_damage = 0, projectile_speed = 0,
     aggression = 4 / 10, patrol_range = 200, score_value = 100,
     health_drop_chance = 1 / 10 \<rparr>"

section \<open>batman\_arkham\_2d.py: entities\<close>

datatype EntityState = IDLE | RUNNING | JUMPING | FALLING | ATTACKING | HIT | DEAD | BLOCKING

datatype AttackType = NONE | PUNCH | KICK | BATARANG | ENEMY_MELEE | ENEMY_PROJECTILE

subsection \<open>pygame.Rect\<close>

text \<open>
  \<^verbatim>\<open>pygame.Rect\<close> belongs to the pygame library, not to the repository. It stores
  integers (float arguments are truncated), and \<^verbatim>\<open>colliderect\<close> is pygame's overlap
  test: rectangles of zero width or height never collide, touching edges do not overlap.
  The quantified theorems below use of \<^verbatim>\<open>colliderect\<close> only that it is a function of the
  two rectangles; the example states evaluate it.
\<close>

record rect =
  rect_x :: int
  rect_y :: int
  rect_w :: int
  rect_h :: int

definition Rect :: "rat \<Rightarrow> rat \<Rightarrow> rat \<Rightarrow> rat \<Rightarrow> rect" where
  "Rect a b c d = \<lparr> rect_x = py_int a, rect_y = py_int b, rect_w = py_int c, rect_h = py_int d \<rparr>"

definition colliderect :: "rect \<Rightarrow> rect \<Rightarrow> bool" where
  "colliderect A B =
     (if rect_w A = 0 \<or> rect_h A = 0 \<or> rect_w B = 0 \<or> rect_h B = 0 then False
      else min (rect_x A) (rect_x A + rect_w A) < max (rect_x B) (rect_x B + rect_w B)
         \<and> min (rect_y A) (rect_y A + rect_h A) < max (rect_y B) (rect_y B + rect_h B)
         \<and> max (rect_x A) (rect_x A + rect_w A) > min (rect_x B) (rect_x B + rect_w B)
         \<and> max (rect_y A) (rect_y A + rect_h A) > min (rect_y B) (rect_y B + rect_h B))"

subsection \<open>class Projectile\<close>

record projectile =
  proj_x :: rat
  proj_y :: rat
  proj_velocity_x :: rat
  proj_velocity_y :: rat
  proj_damage :: int
  owner_is_player :: bool
  max_distance :: int
  distance_traveled :: rat
  proj_active :: bool
  angle :: int
  proj_width :: int
  proj_height :: int

definition Projectile :: "rat \<Rightarrow> rat \<Rightarrow> rat \<Rightarrow> rat \<Rightarrow> int \<Rightarrow> bool \<Rightarrow> int \<Rightarrow> projectile" where
  \<comment> \<open>\<^verbatim>\<open>Projectile.__init__\<close>\<close>
  "Projectile a b vx vy dmg owner maxd =
     \<lparr> proj_x = a, proj_y = b, proj_velocity_x = vx, proj_velocity_y = vy, proj_damage = dmg,
       owner_is_player = owner, max_distance = maxd, distance_traveled = 0,
       proj_active = True, angle = 0, proj_width = 20, proj_height = 10 \<rparr>"

definition Projectile_update :: "projectile \<Rightarrow> projectile" where
  "Projectile_update p =
     (if \<not> proj_active p then p
      else let p1 = p\<lparr> proj_x := proj_x p + proj_velocity_x p,
                        proj_y := proj_y p + proj_velocity_y p,
                        distance_traveled := distance_traveled p + \<bar>proj_velocity_x p\<bar>,
                        angle := angle p + 15 \<rparr>
           in if distance_traveled p1 > of_int (max_distance p1)
              then p1\<lparr> proj_active := False \<rparr> else p1)"

definition Projectile_get_rect :: "projectile \<Rightarrow> rect" where
  "Projectile_get_rect p =
     Rect (proj_x p - of_int (proj_width p div 2)) (proj_y p - of_int (proj_height p div 2))
          (of_int (proj_width p)) (of_int (proj_height p))"

subsection \<open>class Entity\<close>

record entity =
  pos_x :: rat
  pos_y :: rat
  width :: int
  height :: int
  velocity_x :: rat
  velocity_y :: rat
  facing_right :: bool
  state :: EntityState
  health :: int
  max_health :: int
  animation_frame :: int
  animation_timer :: int
  invincibility_frames :: int
  attack_cooldown :: int
  current_attack :: AttackType
  attack_frame :: int

definition get_rect :: "'a entity_scheme \<Rightarrow> rect" where
  "get_rect e = Rect (pos_x e) (pos_y e) (of_int (width e)) (of_int (height e))"

definition is_on_ground :: "'a entity_scheme \<Rightarrow> bool" where
  "is_on_ground e \<longleftrightarrow> pos_y e + of_int (height e) \<ge> of_int GROUND_LEVEL"

definition Entity_take_damage :: "'a entity_scheme \<Rightarrow> int \<Rightarrow> int \<Rightarrow> 'a entity_scheme" where
  \<comment> \<open>\<^verbatim>\<open>Entity.take_damage(amount, knockback_direction)\<close>\<close>
  "Entity_take_damage e amount knockback_direction =
     (if invincibility_frames e > 0 then e
      else let e1 = e\<lparr> health := health e - amount,
                        invincibility_frames := 30,
                        velocity_x := of_int (knockback_direction * 5) \<rparr>
           in if health e1 \<le> 0 then e1\<lparr> health := 0, state := DEAD \<rparr> else e1)"

subsection \<open>class Player\<close>

record player = entity +
  jumps_remaining :: int
  combo_count :: int
  combo_timer :: int
  score :: int
  punch_cooldown :: int
  kick_cooldown :: int
  batarang_cooldown :: int
  attack_duration :: int

definition Player :: "rat \<Rightarrow> rat \<Rightarrow> player" where
  \<comment> \<open>\<^verbatim>\<open>Player.__init__\<close>, after \<^verbatim>\<open>Entity.__init__(x, y, 50, 80)\<close>\<close>
  "Player a b =
     \<lparr> pos_x = a, pos_y = b, width = 50, height = 80, velocity_x = 0, velocity_y = 0,
       facing_right = True, state = IDLE, health = MAX_HEALTH, max_health = MAX_HEALTH,
       animation_frame = 0, animation_timer = 0, invincibility_frames = 0,
       attack_cooldown = 0, current_attack = NONE, attack_frame = 0,
       jumps_remaining = MAX_JUMPS, combo_count = 0, combo_timer = 0, score = 0,
       punch_cooldown = 0, kick_cooldown = 0, batarang_cooldown = 0, attack_duration = 0 \<rparr>"

definition punch :: "player \<Rightarrow> bool \<times> player" where
  "punch p =
     (if punch_cooldown p \<le> 0 \<and> attack_duration p \<le> 0
      then (True, p\<lparr> punch_cooldown := PUNCH_COOLDOWN, current_attack := PUNCH,
                      attack_duration := 15, state := ATTACKING \<rparr>)
      else (False, p))"

definition kick :: "player \<Rightarrow> bool \<times> player" where
  "kick p =
     (if kick_cooldown p \<le> 0 \<and> attack_duration p \<le> 0
      then (True, p\<lparr> kick_cooldown := KICK_COOLDOWN, current_attack := KICK,
                      attack_duration := 20, state := ATTACKING \<rparr>)
      else (False, p))"

definition throw_batarang :: "player \<Rightarrow> projectile option \<times> player" where
  "throw_batarang p =
     (if batarang_cooldown p \<le> 0
      then let p1 = p\<lparr> batarang_cooldown := BATARANG_COOLDOWN, current_attack := BATARANG,
                         attack_duration := 10 \<rparr>;
               direction = (if facing_right p1 then 1 else - 1);
               batarang = Projectile
                 (pos_x p1 + of_int (if facing_right p1 then width p1 else 0))
                 (pos_y p1 + of_int (height p1 div 3))
                 (BATARANG_SPEED * direction) 0 BATARANG_DAMAGE True BATARANG_MAX_DISTANCE
           in (Some batarang, p1)
      else (None, p))"

definition get_attack_rect :: "player \<Rightarrow> rect option" where
  \<comment> \<open>\<^verbatim>\<open>Player.get_attack_rect\<close>\<close>
  "get_attack_rect p =
     (if current_attack p = NONE \<or> attack_duration p \<le> 0 then None
      else if current_attack p = PUNCH \<or> current_attack p = KICK then
        (let attack_range = (if current_attack p = PUNCH then PUNCH_RANGE else KICK_RANGE)
         in if facing_right p
            then Some (Rect (pos_x p + of_int (width p)) (pos_y p + 20)
                            (of_int attack_range) (of_int (height p - 40)))
            else Some (Rect (pos_x p - of_int attack_range) (pos_y p + 20)
                            (of_int attack_range) (of_int (height p - 40))))
      else None)"

definition get_attack_damage :: "player \<Rightarrow> int" where
  "get_attack_damage p =
     (if current_attack p = PUNCH \<or> current_attack p = KICK then
        (let base_damage = (if current_attack p = PUNCH then PUNCH_DAMAGE else KICK_DAMAGE);
             multiplier = 1 + of_int (combo_count p) * COMBO_DAMAGE_BONUS;
             multiplier = min multiplier MAX_COMBO_MULTIPLIER
         in py_int (of_int base_damage * multiplier))
      else 0)"

definition register_hit :: "player \<Rightarrow> player" where
  "register_hit p = p\<lparr> combo_count := combo_count p + 1, combo_timer := COMBO_WINDOW \<rparr>"

definition Player_take_damage :: "player \<Rightarrow> int \<Rightarrow> int \<Rightarrow> player" where
  \<comment> \<open>\<^verbatim>\<open>Player.take_damage\<close>, which calls \<^verbatim>\<open>Entity.take_damage\<close>\<close>
  "Player_take_damage p amount knockback_direction =
     (if invincibility_frames p > 0 then p
      else (Entity_take_damage p amount knockback_direction)
             \<lparr> combo_count := 0, combo_timer := 0, invincibility_frames := HIT_INVINCIBILITY \<rparr>)"

definition handle_input :: "bool \<Rightarrow> bool \<Rightarrow> player \<Rightarrow> player" where
  \<comment> \<open>\<^verbatim>\<open>Player.handle_input(keys)\<close>; the two flags are \<^verbatim>\<open>keys[K_LEFT] or keys[K_a]\<close>
     and \<^verbatim>\<open>keys[K_RIGHT] or keys[K_d]\<close>. The method always returns \<^verbatim>\<open>None\<close>.\<close>
  "handle_input left right p =
     (if state p = DEAD then p
      else let
        p1 = (if left then p\<lparr> velocity_x := - MOVE_SPEED, facing_right := False \<rparr>
              else if right then p\<lparr> velocity_x := MOVE_SPEED, facing_right := True \<rparr>
              else let v = velocity_x p * (8 / 10)
                   in p\<lparr> velocity_x := (if \<bar>v\<bar> < 1 / 2 then 0 else v) \<rparr>);
        moving = (left \<or> right);
        p2 = (if state p1 \<noteq> ATTACKING \<and> state p1 \<noteq> JUMPING \<and> state p1 \<noteq> FALLING
              then p1\<lparr> state := (if moving then RUNNING else IDLE) \<rparr> else p1);
        p3 = (if punch_cooldown p2 > 0 then p2\<lparr> punch_cooldown := punch_cooldown p2 - 1 \<rparr> else p2);
        p4 = (if kick_cooldown p3 > 0 then p3\<lparr> kick_cooldown := kick_cooldown p3 - 1 \<rparr> else p3);
        p5 = (if batarang_cooldown p4 > 0
              then p4\<lparr> batarang_cooldown := batarang_cooldown p4 - 1 \<rparr> else p4);
        p6 = (if attack_duration p5 > 0
              then (let q = p5\<lparr> attack_duration := attack_duration p5 - 1 \<rparr>
                    in if attack_duration q = 0 then q\<lparr> current_attack := NONE \<rparr> else q)
              else p5)
      in if combo_timer p6 > 0 then p6\<lparr> combo_timer := combo_timer p6 - 1 \<rparr>
         else p6\<lparr> combo_count := 0 \<rparr>)"

definition Player_update :: "player \<Rightarrow> player" where
  \<comment> \<open>\<^verbatim>\<open>Player.update\<close>: gravity, movement, ground, bounds, invincibility countdown, animation\<close>
  "Player_update p =
     (let vy = velocity_y p + GRAVITY;
          p1 = p\<lparr> velocity_y := (if vy > 20 then 20 else vy) \<rparr>;
          p2 = p1\<lparr> pos_x := pos_x p1 + velocity_x p1, pos_y := pos_y p1 + velocity_y p1 \<rparr>;
          p3 = (if pos_y p2 + of_int (height p2) > of_int GROUND_LEVEL
                then let q = p2\<lparr> pos_y := of_int (GROUND_LEVEL - height p2), velocity_y := 0,
                                    jumps_remaining := MAX_JUMPS \<rparr>
                     in if state q = JUMPING \<or> state q = FALLING then q\<lparr> state := IDLE \<rparr> else q
                else p2);
          p4 = (if velocity_y p3 < 0 then p3\<lparr> state := JUMPING \<rparr>
                else if velocity_y p3 > 2 \<and> \<not> is_on_ground p3 then p3\<lparr> state := FALLING \<rparr>
                else p3);
          p5 = (if pos_x p4 < 0 then p4\<lparr> pos_x := 0 \<rparr> else p4);
          p6 = (if pos_x p5 > of_int (LEVEL_WIDTH - width p5)
                then p5\<lparr> pos_x := of_int (LEVEL_WIDTH - width p5) \<rparr> else p5);
          p7 = (if invincibility_frames p6 > 0
                then p6\<lparr> invincibility_frames := invincibility_frames p6 - 1 \<rparr> else p6);
          p8 = p7\<lparr> animation_timer := animation_timer p7 + 1 \<rparr>
      in if animation_timer p8 \<ge> 8
         then p8\<lparr> animation_timer := 0, animation_frame := (animation_frame p8 + 1) mod 4 \<rparr>
         else p8)"

subsection \<open>class Enemy\<close>

text \<open>
  Objects of class \<^verbatim>\<open>Enemy\<close> are compared by identity (\<^verbatim>\<open>enemy == self.boss\<close>,
  \<^verbatim>\<open>self.enemies.remove(enemy)\<close>); the field \<open>oid\<close> is that identity.
\<close>

record enemy = entity +
  oid :: nat
  config :: EnemyConfig
  spawn_x :: rat
  ai_timer :: int
  ai_state :: string
  blocking :: bool
  projectile_cooldown :: int

definition Enemy :: "nat \<Rightarrow> rat \<Rightarrow> rat \<Rightarrow> EnemyConfig \<Rightarrow> enemy" where
  \<comment> \<open>\<^verbatim>\<open>Enemy.__init__(x, y, config)\<close>; the first argument is the new object's identity\<close>
  "Enemy i a b cfg =
     \<lparr> pos_x = a, pos_y = b, width = cfg_width cfg, height = cfg_height cfg,
       velocity_x = 0, velocity_y = 0, facing_right = True, state = IDLE,
       health = cfg_health cfg, max_health = cfg_health cfg,
       animation_frame = 0, animation_timer = 0, invincibility_frames = 0,
       attack_cooldown = 0, current_attack = NONE, attack_frame = 0,
       oid = i, config = cfg, spawn_x = a, ai_timer = 0, ai_state = ''patrol'',
       blocking = False, projectile_cooldown = 0 \<rparr>"

definition Enemy_get_attack_rect :: "enemy \<Rightarrow> rect option" where
  "Enemy_get_attack_rect e =
     (if current_attack e \<noteq> ENEMY_MELEE \<or> attack_frame e < 5 then None
      else if facing_right e
      then Some (Rect (pos_x e + of_int (width e)) (pos_y e + 20)
                      (of_int (cfg_attack_range (config e))) (of_int (height e - 40)))
      else Some (Rect (pos_x e - of_int (cfg_attack_range (config e))) (pos_y e + 20)
                      (of_int (cfg_attack_range (config e))) (of_int (height e - 40))))"

definition Enemy_take_damage :: "enemy \<Rightarrow> int \<Rightarrow> int \<Rightarrow> enemy" where
  \<comment> \<open>\<^verbatim>\<open>Enemy.take_damage\<close>: the amount is cut to a third while blocking\<close>
  "Enemy_take_damage e amount knockback_direction =
     (let amount = (if blocking e \<and> can_block (config e) then amount div 3 else amount)
      in Entity_take_damage e amount knockback_direction)"

subsection \<open>class HealthPickup\<close>

record pickup =
  pk_x :: rat
  pk_y :: rat
  pk_width :: int
  pk_height :: int
  heal_amount :: int
  pk_active :: bool
  lifetime :: int

definition HealthPickup :: "rat \<Rightarrow> rat \<Rightarrow> pickup" where
  "HealthPickup a b = \<lparr> pk_x = a, pk_y = b, pk_width = 25, pk_height = 25, heal_amount = 20,
     pk_active = True, lifetime = 600 \<rparr>"

definition HealthPickup_update :: "pickup \<Rightarrow> pickup" where
  "HealthPickup_update k =
     (let k1 = k\<lparr> lifetime := lifetime k - 1 \<rparr>
      in if lifetime k1 \<le> 0 then k1\<lparr> pk_active := False \<rparr> else k1)"

definition HealthPickup_get_rect :: "pickup \<Rightarrow> rect" where
  "HealthPickup_get_rect k = Rect (pk_x k) (pk_y k) (of_int (pk_width k)) (of_int (pk_height k))"

section \<open>batman\_arkham\_2d.py: Game.update\<close>

text \<open>
  The part of class \<^verbatim>\<open>Game\<close> that the simulation reads and writes while a level is
  played. \<open>boss\<close> is the identity of \<^verbatim>\<open>self.boss\<close>. Display, clock, camera and
  background are presentation and are left out.
\<close>

record game =
  the_player :: player
  enemies :: "enemy list"
  projectiles :: "projectile list"
  pickups :: "pickup list"
  boss :: nat
  game_state :: string
  won :: bool
  level_intro_timer :: int

definition truthy :: "rect option \<Rightarrow> bool" where
  \<comment> \<open>Python's truth value of an \<^verbatim>\<open>Optional[pygame.Rect]\<close>: \<^verbatim>\<open>None\<close> is false, and so
     is a rectangle of zero width or height\<close>
  "truthy r = (case r of None \<Rightarrow> False | Some A \<Rightarrow> rect_w A \<noteq> 0 \<and> rect_h A \<noteq> 0)"

definition direction_of :: "bool \<Rightarrow> int" where
  \<comment> \<open>\<^verbatim>\<open>1 if c else -1\<close>\<close>
  "direction_of c = (if c then 1 else - 1)"

text \<open>
  The loop \<^verbatim>\<open>for enemy in self.enemies[:]\<close>. A dead enemy is credited to the score and
  removed from \<^verbatim>\<open>self.enemies\<close>; a living one is updated in place. \<^verbatim>\<open>Enemy.update\<close>
  (the AI, which draws random numbers and reads the clock) is the parameter \<open>upd\<close>: it
  reads the player, changes only the enemy it is called on, and may return a projectile.
  \<open>rnd k\<close> is the value \<^verbatim>\<open>random.random()\<close> returns in iteration \<open>k\<close>. When the dead
  enemy is the boss the level ends: \<open>next_level\<close> stands for what follows
  (\<^verbatim>\<open>start_level\<close> or the game-over state), and since \<^verbatim>\<open>start_level\<close> appends the boss
  last, no iteration follows it.
\<close>

fun update_enemies ::
  "(nat \<Rightarrow> rat) \<Rightarrow> (nat \<Rightarrow> player \<Rightarrow> enemy \<Rightarrow> enemy \<times> projectile option) \<Rightarrow> (game \<Rightarrow> game)
     \<Rightarrow> nat \<Rightarrow> enemy list \<Rightarrow> game \<Rightarrow> game" where
  "update_enemies rnd upd next_level k [] g = g"
| "update_enemies rnd upd next_level k (e # rest) g =
     (if state e = DEAD then
        (let g1 = (if rnd k < health_drop_chance (config e)
                   then g\<lparr> pickups := pickups g @ [HealthPickup (pos_x e) (pos_y e)] \<rparr> else g);
             g2 = g1\<lparr> the_player := (the_player g1)
                        \<lparr> score := score (the_player g1) + score_value (config e) \<rparr> \<rparr>;
             g3 = g2\<lparr> enemies := remove1 e (enemies g2) \<rparr>
         in if oid e = boss g3 then next_level g3
            else update_enemies rnd upd next_level (Suc k) rest g3)
      else
        (let (e1, shot) = upd k (the_player g) e;
             g1 = g\<lparr> enemies := map (\<lambda>x. if oid x = oid e then e1 else x) (enemies g) \<rparr>;
             g2 = (case shot of None \<Rightarrow> g1
                   | Some pr \<Rightarrow> g1\<lparr> projectiles := projectiles g1 @ [pr] \<rparr>)
         in update_enemies rnd upd next_level (Suc k) rest g2))"

text \<open>The inner loop of a player's projectile: the first living enemy it overlaps.\<close>

fun hit_first_enemy :: "projectile \<Rightarrow> enemy list \<Rightarrow> enemy list \<times> bool" where
  "hit_first_enemy pr [] = ([], False)"
| "hit_first_enemy pr (e # es) =
     (if state e \<noteq> DEAD \<and> colliderect (Projectile_get_rect pr) (get_rect e)
      then (Enemy_take_damage e (proj_damage pr) (direction_of (proj_velocity_x pr > 0)) # es, True)
      else (let (es1, found) = hit_first_enemy pr es in (e # es1, found)))"

text \<open>
  The loop \<^verbatim>\<open>for projectile in self.projectiles[:]\<close>; the result list is
  \<^verbatim>\<open>self.projectiles\<close> after the loop. A projectile that ran out of range is removed;
  one that hit stays in the list, inactive, until the next tick.
\<close>

fun update_projectiles ::
  "projectile list \<Rightarrow> player \<Rightarrow> enemy list \<Rightarrow> projectile list \<times> player \<times> enemy list" where
  "update_projectiles [] pl es = ([], pl, es)"
| "update_projectiles (pr # prs) pl es =
     (let pr1 = Projectile_update pr in
      if \<not> proj_active pr1 then update_projectiles prs pl es
      else if owner_is_player pr1 then
        (let (es1, found) = hit_first_enemy pr1 es;
             pl1 = (if found then register_hit pl else pl);
             pr2 = (if found then pr1\<lparr> proj_active := False \<rparr> else pr1);
             (prs1, pl2, es2) = update_projectiles prs pl1 es1
         in (pr2 # prs1, pl2, es2))
      else if colliderect (Projectile_get_rect pr1) (get_rect pl) then
        (let pl1 = Player_take_damage pl (proj_damage pr1) (direction_of (proj_velocity_x pr1 > 0));
             (prs1, pl2, es2) = update_projectiles prs pl1 es
         in (pr1\<lparr> proj_active := False \<rparr> # prs1, pl2, es2))
      else
        (let (prs1, pl2, es2) = update_projectiles prs pl es in (pr1 # prs1, pl2, es2)))"

text \<open>
  The player's melee attack: \<^verbatim>\<open>for enemy in self.enemies\<close> under the guard
  \<^verbatim>\<open>player_attack_rect and self.player.attack_duration == self.player.attack_duration\<close>.
\<close>

fun melee_loop :: "rect \<Rightarrow> enemy list \<Rightarrow> player \<Rightarrow> player \<times> enemy list" where
  "melee_loop r [] pl = (pl, [])"
| "melee_loop r (e # es) pl =
     (if state e \<noteq> DEAD \<and> colliderect r (get_rect e)
      then (let direction = direction_of (facing_right pl);
                damage = get_attack_damage pl;
                e1 = Enemy_take_damage e damage direction;
                pl1 = register_hit pl;
                (pl2, es1) = melee_loop r es pl1
            in (pl2, e1 # es1))
      else (let (pl2, es1) = melee_loop r es pl in (pl2, e # es1)))"

definition player_melee :: "player \<Rightarrow> enemy list \<Rightarrow> player \<times> enemy list" where
  "player_melee pl es =
     (let player_attack_rect = get_attack_rect pl
      in if truthy player_attack_rect \<and> attack_duration pl = attack_duration pl
         then melee_loop (the player_attack_rect) es pl
         else (pl, es))"

text \<open>The enemies' melee attacks on the player.\<close>

fun enemy_melee :: "enemy list \<Rightarrow> player \<Rightarrow> player" where
  "enemy_melee [] pl = pl"
| "enemy_melee (e # es) pl =
     (if state e = DEAD then enemy_melee es pl
      else (let enemy_attack_rect = Enemy_get_attack_rect e
            in if truthy enemy_attack_rect
                  \<and> colliderect (the enemy_attack_rect) (get_rect pl)
               then enemy_melee es
                      (Player_take_damage pl (cfg_damage (config e)) (direction_of (facing_right e)))
               else enemy_melee es pl))"

text \<open>The loop \<^verbatim>\<open>for pickup in self.pickups[:]\<close>.\<close>

fun update_pickups :: "pickup list \<Rightarrow> player \<Rightarrow> pickup list \<times> player" where
  "update_pickups [] pl = ([], pl)"
| "update_pickups (k # ks) pl =
     (let k1 = HealthPickup_update k in
      if \<not> pk_active k1 then update_pickups ks pl
      else if colliderect (HealthPickup_get_rect k1) (get_rect pl)
      then update_pickups ks (pl\<lparr> health := min (max_health pl) (health pl + heal_amount k1) \<rparr>)
      else (let (ks1, pl1) = update_pickups ks pl in (k1 # ks1, pl1)))"

definition check_player_death :: "game \<Rightarrow> game" where
  "check_player_death g =
     (if state (the_player g) = DEAD then g\<lparr> won := False, game_state := ''game_over'' \<rparr> else g)"

definition resolve_collisions :: "game \<Rightarrow> game" where
  \<comment> \<open>\<^verbatim>\<open>Game.update\<close> from \<^verbatim>\<open># Update projectiles\<close> to its end\<close>
  "resolve_collisions g =
     (let (prs, pl1, es1) = update_projectiles (projectiles g) (the_player g) (enemies g);
          (pl2, es2) = player_melee pl1 es1;
          pl3 = enemy_melee es2 pl2;
          (ks, pl4) = update_pickups (pickups g) pl3
      in check_player_death
           (g\<lparr> the_player := pl4, enemies := es2, projectiles := prs, pickups := ks \<rparr>))"

definition Game_update ::
  "bool \<Rightarrow> bool \<Rightarrow> (nat \<Rightarrow> rat) \<Rightarrow> (nat \<Rightarrow> player \<Rightarrow> enemy \<Rightarrow> enemy \<times> projectile option)
     \<Rightarrow> (game \<Rightarrow> game) \<Rightarrow> game \<Rightarrow> game" where
  \<comment> \<open>\<^verbatim>\<open>Game.update\<close>; \<open>left\<close> and \<open>right\<close> are the held movement keys of this tick\<close>
  "Game_update left right rnd upd next_level g =
     (if game_state g = ''level_intro'' then
        (let g1 = g\<lparr> level_intro_timer := level_intro_timer g - 1 \<rparr>
         in if level_intro_timer g1 \<le> 0 then g1\<lparr> game_state := ''playing'' \<rparr> else g1)
      else if game_state g \<noteq> ''playing'' then g
      else (let g1 = g\<lparr> the_player := Player_update (handle_input left right (the_player g)) \<rparr>;
                g2 = update_enemies rnd upd next_level 0 (enemies g1) g1
            in resolve_collisions g2))"

section \<open>batman\_arkham\_shadows.py: configuration\<close>

definition S_GRAVITY :: rat where "S_GRAVITY = 8 / 10"
definition S_GROUND_LEVEL :: int where "S_GROUND_LEVEL = 580"
definition S_LEVEL_WIDTH :: int where "S_LEVEL_WIDTH = 6000"

datatype VillainType = TWOFACE | JOKER | PENGUIN | SCARECROW | CROC | BANE | DEATHSTROKE

record VillainConfig =
  vc_name :: string
  vc_display_name :: string
  vc_territory_name :: string
  vc_health :: int
  vc_damage :: int
  vc_speed :: rat
  vc_attack_range :: int
  vc_attack_cooldown :: int
  vc_width :: int
  vc_height :: int
  vc_can_block :: bool
  vc_can_dodge :: bool
  vc_can_counter :: bool
  vc_has_projectile :: bool
  vc_projectile_damage :: int
  vc_has_special :: bool
  vc_special_damage :: int
  vc_phases :: int
  vc_aggression :: rat
  vc_score_value :: int
  vc_num_henchmen :: int

definition VillainConfig_defaults :: VillainConfig where
  \<comment> \<open>the dataclass' default values; the ten leading fields have none\<close>
  "VillainConfig_defaults =
     \<lparr> vc_name = [], vc_display_name = [], vc_territory_name = [], vc_health = 0,
       vc_damage = 0, vc_speed = 0, vc_attack_range = 0, vc_attack_cooldown = 0,
       vc_width = 0, vc_height = 0, vc_can_block = False, vc_can_dodge = False,
       vc_can_counter = False, vc_has_projectile = False, vc_projectile_damage = 0,
       vc_has_special = False, vc_special_damage = 0, vc_phases = 1, vc_aggression = 1 / 2,
       vc_score_value = 5000, vc_num_henchmen = 8 \<rparr>"

text \<open>
  The module-level dictionary \<^verbatim>\<open>VILLAIN_CONFIGS\<close> as the program text initialises it.
  It has an entry for each member of \<^verbatim>\<open>VillainType\<close>, so a total function models it.
  The dictionary's entries are mutable objects shared by reference: a state of the
  dictionary during a run is a value of type \<open>VillainType \<Rightarrow> VillainConfig\<close>, and
  \<^verbatim>\<open>self.config\<close> of a villain of type \<open>t\<close> is the entry at \<open>t\<close> of the current state.
\<close>

type_synonym config_store = "VillainType \<Rightarrow> VillainConfig"

fun VILLAIN_CONFIGS :: config_store where
  "VILLAIN_CONFIGS TWOFACE = VillainConfig_defaults
     \<lparr> vc_name := ''twoface'', vc_display_name := ''TWO-FACE'',
       vc_territory_name := ''THE COURTS'', vc_health := 500, vc_damage := 25,
       vc_speed := 35 / 10, vc_attack_range := 80, vc_attack_cooldown := 40, vc_width := 70,
       vc_height := 100, vc_has_projectile := True, vc_projectile_damage := 18,
       vc_can_block := True, vc_aggression := 6 / 10, vc_score_value := 5000,
       vc_num_henchmen := 8 \<rparr>"
| "VILLAIN_CONFIGS JOKER = VillainConfig_defaults
     \<lparr> vc_name := ''joker'', vc_display_name := ''THE JOKER'',
       vc_territory_name := ''ACE CHEMICALS'', vc_health := 550, vc_damage := 22,
       vc_speed := 4, vc_attack_range := 75, vc_attack_cooldown := 35, vc_width := 65,
       vc_height := 100, vc_can_dodge := True, vc_has_projectile := True,
       vc_projectile_damage := 15, vc_has_special := True, vc_aggression := 7 / 10,
       vc_score_value := 6000, vc_num_henchmen := 10 \<rparr>"
| "VILLAIN_CONFIGS PENGUIN = VillainConfig_defaults
     \<lparr> vc_name := ''penguin'', vc_display_name := ''THE PENGUIN'',
       vc_territory_name := ''ICEBERG LOUNGE'', vc_health := 450, vc_damage := 20,
       vc_speed := 25 / 10, vc_attack_range := 120, vc_attack_cooldown := 45, vc_width := 70,
       vc_height := 85, vc_has_projectile := True, vc_projectile_damage := 20,
       vc_aggression := 5 / 10, vc_score_value := 5500, vc_num_henchmen := 10 \<rparr>"
| "VILLAIN_CONFIGS SCARECROW = VillainConfig_defaults
     \<lparr> vc_name := ''scarecrow'', vc_display_name := ''SCARECROW'',
       vc_territory_name := ''ARKHAM ASYLUM'', vc_health := 480, vc_damage := 24,
       vc_speed := 38 / 10, vc_attack_range := 90, vc_attack_cooldown := 38, vc_width := 65,
       vc_height := 105, vc_can_dodge := True, vc_has_projectile := True,
       vc_projectile_damage := 12, vc_has_special := True, vc_special_damage := 30,
       vc_aggression := 65 / 100, vc_score_value := 6000, vc_num_henchmen := 9 \<rparr>"
| "VILLAIN_CONFIGS CROC = VillainConfig_defaults
     \<lparr> vc_name := ''croc'', vc_display_name := ''KILLER CROC'',
       vc_territory_name := ''GOTHAM SEWERS'', vc_health := 900, vc_damage := 45,
       vc_speed := 22 / 10, vc_attack_range := 100, vc_attack_cooldown := 55, vc_width := 90,
       vc_height := 120, vc_can_block := True, vc_has_special := True,
       vc_special_damage := 60, vc_aggression := 8 / 10, vc_score_value := 7000,
       vc_num_henchmen := 6 \<rparr>"
| "VILLAIN_CONFIGS BANE = VillainConfig_defaults
     \<lparr> vc_name := ''bane'', vc_display_name := ''BANE'',
       vc_territory_name := ''SANTA PRISCA'', vc_health := 1000, vc_damage := 50,
       vc_speed := 25 / 10, vc_attack_range := 110, vc_attack_cooldown := 50, vc_width := 95,
       vc_height := 125, vc_can_block := True, vc_has_special := True,
       vc_special_damage := 70, vc_phases := 2, vc_aggression := 85 / 100,
       vc_score_value := 8000, vc_num_henchmen := 7 \<rparr>"
| "VILLAIN_CONFIGS DEATHSTROKE = VillainConfig_defaults
     \<lparr> vc_name := ''deathstroke'', vc_display_name := ''DEATHSTROKE'',
       vc_territory_name := ''MILITIA HQ'', vc_health := 850, vc_damage := 40,
       vc_speed := 55 / 10, vc_attack_range := 100, vc_attack_cooldown := 25, vc_width := 75,
       vc_height := 105, vc_can_block := True, vc_can_dodge := True, vc_can_counter := True,
       vc_has_projectile := True, vc_projectile_damage := 25, vc_phases := 3,
       vc_aggression := 95 / 100, vc_score_value := 10000, vc_num_henchmen := 12 \<rparr>"

definition S_MAX_HEALTH :: int where "S_MAX_HEALTH = 150"
definition S_MAX_LIVES :: int where "S_MAX_LIVES = 3"
definition S_MAX_JUMPS :: int where "S_MAX_JUMPS = 2"
definition S_PUNCH_DAMAGE :: int where "S_PUNCH_DAMAGE = 35"
definition S_KICK_DAMAGE :: int where "S_KICK_DAMAGE = 45"
definition S_PUNCH_RANGE :: int where "S_PUNCH_RANGE = 75"
definition S_KICK_RANGE :: int where "S_KICK_RANGE = 90"
definition S_HIT_INVINCIBILITY :: int where "S_HIT_INVINCIBILITY = 45"
definition S_COMBO_WINDOW :: int where "S_COMBO_WINDOW = 100"
definition S_COMBO_DAMAGE_BONUS :: rat where "S_COMBO_DAMAGE_BONUS = 15 / 100"
definition S_MAX_COMBO_MULTIPLIER :: rat where "S_MAX_COMBO_MULTIPLIER = 25 / 10"
definition S_RESPAWN_INVINCIBILITY :: int where "S_RESPAWN_INVINCIBILITY = 120"

section \<open>batman\_arkham\_shadows.py: entities\<close>

text \<open>
  Both enums of this program have a member \<^verbatim>\<open>SPECIAL\<close>; the attack type's is
  \<open>S_SPECIAL_ATTACK\<close> here.
\<close>

datatype s_EntityState =
  S_IDLE | S_RUNNING | S_JUMPING | S_FALLING | S_PUNCHING | S_KICKING | S_THROWING
  | S_BLOCKING | S_HIT | S_DEAD | S_SPECIAL

datatype s_AttackType =
  S_NONE | S_PUNCH | S_KICK | S_BATARANG | S_PROJECTILE | S_SPECIAL_ATTACK

subsection \<open>class Projectile\<close>

record s_projectile =
  s_proj_x :: rat
  s_proj_y :: rat
  s_proj_vx :: rat
  s_proj_vy :: rat
  s_proj_damage :: int
  from_player :: bool
  max_dist :: int
  traveled :: rat
  s_proj_active :: bool
  s_angle :: int
  s_proj_width :: int
  s_proj_height :: int

definition s_Projectile :: "rat \<Rightarrow> rat \<Rightarrow> rat \<Rightarrow> rat \<Rightarrow> int \<Rightarrow> bool \<Rightarrow> int \<Rightarrow> s_projectile" where
  "s_Projectile a b vx vy dmg owner maxd =
     \<lparr> s_proj_x = a, s_proj_y = b, s_proj_vx = vx, s_proj_vy = vy, s_proj_damage = dmg,
       from_player = owner, max_dist = maxd, traveled = 0, s_proj_active = True,
       s_angle = 0, s_proj_width = 20, s_proj_height = 10 \<rparr>"

definition s_Projectile_update :: "s_projectile \<Rightarrow> s_projectile" where
  "s_Projectile_update p =
     (if \<not> s_proj_active p then p
      else let p1 = p\<lparr> s_proj_x := s_proj_x p + s_proj_vx p,
                        s_proj_y := s_proj_y p + s_proj_vy p,
                        traveled := traveled p + \<bar>s_proj_vx p\<bar>,
                        s_angle := s_angle p + 12 \<rparr>
           in if traveled p1 > of_int (max_dist p1) then p1\<lparr> s_proj_active := False \<rparr> else p1)"

definition s_Projectile_get_rect :: "s_projectile \<Rightarrow> rect" where
  "s_Projectile_get_rect p =
     Rect (s_proj_x p - 10) (s_proj_y p - 5) (of_int (s_proj_width p)) (of_int (s_proj_height p))"

subsection \<open>class Entity\<close>

record s_entity =
  s_x :: rat
  s_y :: rat
  s_width :: int
  s_height :: int
  s_vx :: rat
  s_vy :: rat
  s_facing_right :: bool
  s_state :: s_EntityState
  s_health :: int
  s_max_health :: int
  s_invincibility :: int
  s_attack_cooldown :: int
  s_current_attack :: s_AttackType
  s_attack_frame :: int
  s_anim_frame :: int
  s_anim_timer :: int

definition s_get_rect :: "'a s_entity_scheme \<Rightarrow> rect" where
  "s_get_rect e = Rect (s_x e) (s_y e) (of_int (s_width e)) (of_int (s_height e))"

definition s_is_on_ground :: "'a s_entity_scheme \<Rightarrow> bool" where
  "s_is_on_ground e \<longleftrightarrow> s_y e + of_int (s_height e) \<ge> of_int S_GROUND_LEVEL"

definition s_Entity_take_damage :: "'a s_entity_scheme \<Rightarrow> int \<Rightarrow> int \<Rightarrow> 'a s_entity_scheme" where
  "s_Entity_take_damage e amount knockback_dir =
     (if s_invincibility e > 0 then e
      else let e1 = e\<lparr> s_health := s_health e - amount, s_invincibility := 30,
                        s_vx := of_int (knockback_dir * 5) \<rparr>
           in if s_health e1 \<le> 0 then e1\<lparr> s_health := 0, s_state := S_DEAD \<rparr> else e1)"

subsection \<open>class Player\<close>

record s_player = s_entity +
  lives :: int
  jumps_left :: int
  combo :: int
  s_combo_timer :: int
  s_score :: int
  punch_cd :: int
  kick_cd :: int
  batarang_cd :: int
  s_attack_duration :: int
  checkpoint_x :: rat
  checkpoint_y :: rat
  last_safe_x :: rat
  last_safe_y :: rat

definition s_Player :: "rat \<Rightarrow> rat \<Rightarrow> s_player" where
  \<comment> \<open>\<^verbatim>\<open>Player.__init__\<close>, after \<^verbatim>\<open>Entity.__init__(x, y, 60, 95)\<close>\<close>
  "s_Player a b =
     \<lparr> s_x = a, s_y = b, s_width = 60, s_height = 95, s_vx = 0, s_vy = 0,
       s_facing_right = True, s_state = S_IDLE, s_health = S_MAX_HEALTH,
       s_max_health = S_MAX_HEALTH, s_invincibility = 0, s_attack_cooldown = 0,
       s_current_attack = S_NONE, s_attack_frame = 0, s_anim_frame = 0, s_anim_timer = 0,
       lives = S_MAX_LIVES, jumps_left = S_MAX_JUMPS, combo = 0, s_combo_timer = 0,
       s_score = 0, punch_cd = 0, kick_cd = 0, batarang_cd = 0, s_attack_duration = 0,
       checkpoint_x = a, checkpoint_y = b, last_safe_x = a, last_safe_y = b \<rparr>"

definition update_checkpoint :: "s_player \<Rightarrow> s_player" where
  "update_checkpoint p =
     (if s_is_on_ground p \<and> s_state p \<noteq> S_DEAD
      then p\<lparr> last_safe_x := s_x p, last_safe_y := s_y p \<rparr> else p)"

definition respawn :: "s_player \<Rightarrow> bool \<times> s_player" where
  "respawn p =
     (if lives p \<le> 0 then (False, p)
      else (True, p\<lparr> lives := lives p - 1, s_health := s_max_health p,
                      s_x := last_safe_x p, s_y := last_safe_y p, s_vx := 0, s_vy := 0,
                      s_state := S_IDLE, s_invincibility := S_RESPAWN_INVINCIBILITY,
                      combo := 0, s_combo_timer := 0, s_current_attack := S_NONE,
                      s_attack_duration := 0 \<rparr>))"

definition s_get_attack_rect :: "s_player \<Rightarrow> rect option" where
  "s_get_attack_rect p =
     (if s_current_attack p = S_NONE \<or> s_attack_duration p \<le> 0 then None
      else if s_current_attack p = S_PUNCH \<or> s_current_attack p = S_KICK then
        (let r = (if s_current_attack p = S_PUNCH then S_PUNCH_RANGE else S_KICK_RANGE)
         in if s_facing_right p
            then Some (Rect (s_x p + of_int (s_width p)) (s_y p + 15) (of_int r)
                            (of_int (s_height p - 30)))
            else Some (Rect (s_x p - of_int r) (s_y p + 15) (of_int r)
                            (of_int (s_height p - 30))))
      else None)"

definition get_damage :: "s_player \<Rightarrow> int" where
  "get_damage p =
     (let base = (if s_current_attack p = S_PUNCH then S_PUNCH_DAMAGE else S_KICK_DAMAGE);
          mult = min (1 + of_int (combo p) * S_COMBO_DAMAGE_BONUS) S_MAX_COMBO_MULTIPLIER
      in py_int (of_int base * mult))"

definition s_register_hit :: "s_player \<Rightarrow> s_player" where
  "s_register_hit p = p\<lparr> combo := combo p + 1, s_combo_timer := S_COMBO_WINDOW \<rparr>"

definition s_Player_take_damage :: "s_player \<Rightarrow> int \<Rightarrow> int \<Rightarrow> s_player" where
  "s_Player_take_damage p amount knockback_dir =
     (if s_invincibility p > 0 then p
      else (s_Entity_take_damage p amount knockback_dir)
             \<lparr> combo := 0, s_combo_timer := 0, s_invincibility := S_HIT_INVINCIBILITY \<rparr>)"

subsection \<open>class Villain\<close>

record villain = s_entity +
  villain_type :: VillainType
  v_spawn_x :: rat
  v_ai_state :: string
  v_ai_timer :: int
  special_cooldown :: int
  v_projectile_cooldown :: int
  phase :: int
  phase_triggered :: bool
  coin_flip_timer :: int
  erratic_timer :: int
  venom_active :: bool
  counter_window :: int

definition Villain :: "config_store \<Rightarrow> rat \<Rightarrow> rat \<Rightarrow> VillainType \<Rightarrow> villain" where
  \<comment> \<open>\<^verbatim>\<open>Villain.__init__(x, y, villain_type)\<close>, run while the dictionary is in state \<open>cs\<close>.
     \<^verbatim>\<open>self.config\<close> is not a field: it is the dictionary's entry at \<open>villain_type\<close>.\<close>
  "Villain cs a b t =
     (let config = cs t in
      \<lparr> s_x = a, s_y = b, s_width = vc_width config, s_height = vc_height config,
        s_vx = 0, s_vy = 0, s_facing_right = True, s_state = S_IDLE,
        s_health = vc_health config, s_max_health = vc_health config, s_invincibility = 0,
        s_attack_cooldown = 0, s_current_attack = S_NONE, s_attack_frame = 0,
        s_anim_frame = 0, s_anim_timer = 0,
        villain_type = t, v_spawn_x = a, v_ai_state = ''patrol'', v_ai_timer = 0,
        special_cooldown = 0, v_projectile_cooldown = 0, phase = 1, phase_triggered = False,
        coin_flip_timer = 0, erratic_timer = 0, venom_active = False, counter_window = 0 \<rparr>)"

definition check_phase_transition :: "config_store \<Rightarrow> villain \<Rightarrow> py_error + config_store \<times> villain" where
  \<comment> \<open>\<^verbatim>\<open>Villain._check_phase_transition\<close>. The assignments to \<^verbatim>\<open>self.config.damage\<close>,
     \<^verbatim>\<open>self.config.speed\<close> and \<^verbatim>\<open>self.config.can_counter\<close> write to the dictionary's
     entry. The division raises when \<^verbatim>\<open>max_health\<close> is 0.\<close>
  "check_phase_transition cs v =
     (let t = villain_type v in
      if vc_phases (cs t) \<le> 1 then Inr (cs, v)
      else if s_max_health v = 0 then Inl ZeroDivisionError
      else
        (let health_percent = (of_int (s_health v) :: rat) / of_int (s_max_health v) in
         if t = BANE then
           (if health_percent < 5 / 10 \<and> phase v = 1 then
              (let v1 = v\<lparr> phase := 2, venom_active := True \<rparr>;
                   cs1 = cs(t := (cs t)\<lparr> vc_damage := py_int (of_int (vc_damage (cs t)) * (15 / 10)) \<rparr>);
                   cs2 = cs1(t := (cs1 t)\<lparr> vc_speed := vc_speed (cs1 t) * (13 / 10) \<rparr>)
               in Inr (cs2, v1))
            else Inr (cs, v))
         else if t = DEATHSTROKE then
           (if health_percent < 66 / 100 \<and> phase v = 1 then Inr (cs, v\<lparr> phase := 2 \<rparr>)
            else if health_percent < 33 / 100 \<and> phase v = 2
            then Inr (cs(t := (cs t)\<lparr> vc_can_counter := True \<rparr>), v\<lparr> phase := 3 \<rparr>)
            else Inr (cs, v))
         else Inr (cs, v)))"

definition Villain_get_attack_rect :: "config_store \<Rightarrow> villain \<Rightarrow> rect option" where
  "Villain_get_attack_rect cs v =
     (if s_current_attack v = S_NONE \<or> s_attack_frame v < 5 then None
      else if s_facing_right v
      then Some (Rect (s_x v + of_int (s_width v)) (s_y v + 20)
                      (of_int (vc_attack_range (cs (villain_type v)))) (of_int (s_height v - 40)))
      else Some (Rect (s_x v - of_int (vc_attack_range (cs (villain_type v)))) (s_y v + 20)
                      (of_int (vc_attack_range (cs (villain_type v)))) (of_int (s_height v - 40))))"

definition Villain_take_damage :: "config_store \<Rightarrow> villain \<Rightarrow> int \<Rightarrow> int \<Rightarrow> villain" where
  "Villain_take_damage cs v amount knockback_dir =
     (let amount = (if s_state v = S_BLOCKING \<and> vc_can_block (cs (villain_type v))
                    then amount div 3 else amount)
      in s_Entity_take_damage v amount knockback_dir)"

subsection \<open>class Henchman\<close>

record henchman = s_entity +
  h_villain_type :: VillainType
  h_damage :: int
  h_speed :: rat
  h_attack_range :: int
  h_spawn_x :: rat
  h_ai_timer :: int
  h_score_value :: int

definition Henchman :: "int \<Rightarrow> rat \<Rightarrow> rat \<Rightarrow> VillainType \<Rightarrow> henchman" where
  \<comment> \<open>\<^verbatim>\<open>Henchman.__init__(x, y, villain_type)\<close>; the first argument is
     \<^verbatim>\<open>villain_type.value.__hash__()\<close>, a string hash that differs from run to run\<close>
  "Henchman hash a b t =
     \<lparr> s_x = a, s_y = b, s_width = 45, s_height = 75, s_vx = 0, s_vy = 0,
       s_facing_right = True, s_state = S_IDLE, s_health = 60 + hash mod 40,
       s_max_health = 60 + hash mod 40, s_invincibility = 0, s_attack_cooldown = 0,
       s_current_attack = S_NONE, s_attack_frame = 0, s_anim_frame = 0, s_anim_timer = 0,
       h_villain_type = t, h_damage = 12, h_speed = 25 / 10, h_attack_range = 55,
       h_spawn_x = a, h_ai_timer = 0, h_score_value = 150 \<rparr>"

definition Henchman_get_attack_rect :: "henchman \<Rightarrow> rect option" where
  "Henchman_get_attack_rect h =
     (if s_current_attack h = S_NONE \<or> s_attack_frame h < 4 then None
      else if s_facing_right h
      then Some (Rect (s_x h + of_int (s_width h)) (s_y h + 15) (of_int (h_attack_range h))
                      (of_int (s_height h - 30)))
      else Some (Rect (s_x h - of_int (h_attack_range h)) (s_y h + 15)
                      (of_int (h_attack_range h)) (of_int (s_height h - 30))))"

subsection \<open>class HealthPickup\<close>

record s_pickup =
  s_pk_x :: rat
  s_pk_y :: rat
  s_pk_width :: int
  s_pk_height :: int
  heal :: int
  s_pk_active :: bool
  s_lifetime :: int

definition s_HealthPickup :: "rat \<Rightarrow> rat \<Rightarrow> s_pickup" where
  "s_HealthPickup a b = \<lparr> s_pk_x = a, s_pk_y = b, s_pk_width = 25, s_pk_height = 25,
     heal = 25, s_pk_active = True, s_lifetime = 600 \<rparr>"

definition s_HealthPickup_update :: "s_pickup \<Rightarrow> s_pickup" where
  "s_HealthPickup_update k =
     (let k1 = k\<lparr> s_lifetime := s_lifetime k - 1 \<rparr>
      in if s_lifetime k1 \<le> 0 then k1\<lparr> s_pk_active := False \<rparr> else k1)"

definition s_HealthPickup_get_rect :: "s_pickup \<Rightarrow> rect" where
  "s_HealthPickup_get_rect k =
     Rect (s_pk_x k) (s_pk_y k) (of_int (s_pk_width k)) (of_int (s_pk_height k))"

section \<open>batman\_arkham\_shadows.py: Game.update\<close>

text \<open>
  The fields of class \<^verbatim>\<open>Game\<close> that the collision part of \<^verbatim>\<open>Game.update\<close> reads and
  writes, together with the state \<open>configs\<close> of the dictionary \<^verbatim>\<open>VILLAIN_CONFIGS\<close>.
\<close>

record s_game =
  s_the_player :: s_player
  the_villain :: "villain option"
  henchmen :: "henchman list"
  s_projectiles :: "s_projectile list"
  s_pickups :: "s_pickup list"
  s_game_state :: string
  s_won :: bool
  configs :: config_store

definition villain_alive :: "villain option \<Rightarrow> bool" where
  \<comment> \<open>\<^verbatim>\<open>self.villain and self.villain.state != EntityState.DEAD\<close>\<close>
  "villain_alive vo = (case vo of None \<Rightarrow> False | Some v \<Rightarrow> s_state v \<noteq> S_DEAD)"

fun s_hit_first_henchman :: "s_projectile \<Rightarrow> henchman list \<Rightarrow> henchman list \<times> bool" where
  "s_hit_first_henchman pr [] = ([], False)"
| "s_hit_first_henchman pr (h # hs) =
     (if s_state h \<noteq> S_DEAD \<and> colliderect (s_Projectile_get_rect pr) (s_get_rect h)
      then (s_Entity_take_damage h (s_proj_damage pr) (direction_of (s_proj_vx pr > 0)) # hs, True)
      else (let (hs1, found) = s_hit_first_henchman pr hs in (h # hs1, found)))"

fun s_update_projectiles ::
  "config_store \<Rightarrow> s_projectile list \<Rightarrow> s_player \<Rightarrow> villain option \<Rightarrow> henchman list
     \<Rightarrow> s_projectile list \<times> s_player \<times> villain option \<times> henchman list" where
  "s_update_projectiles cs [] pl vo hs = ([], pl, vo, hs)"
| "s_update_projectiles cs (pr # prs) pl vo hs =
     (let pr1 = s_Projectile_update pr in
      if \<not> s_proj_active pr1 then s_update_projectiles cs prs pl vo hs
      else if from_player pr1 then
        (if villain_alive vo \<and> colliderect (s_Projectile_get_rect pr1) (s_get_rect (the vo))
         then (let v1 = Villain_take_damage cs (the vo) (s_proj_damage pr1)
                          (direction_of (s_proj_vx pr1 > 0));
                   (prs1, pl2, vo2, hs2) =
                      s_update_projectiles cs prs (s_register_hit pl) (Some v1) hs
               in (pr1\<lparr> s_proj_active := False \<rparr> # prs1, pl2, vo2, hs2))
         else (let (hs1, found) = s_hit_first_henchman pr1 hs;
                   pl1 = (if found then s_register_hit pl else pl);
                   pr2 = (if found then pr1\<lparr> s_proj_active := False \<rparr> else pr1);
                   (prs1, pl2, vo2, hs2) = s_update_projectiles cs prs pl1 vo hs1
               in (pr2 # prs1, pl2, vo2, hs2)))
      else if colliderect (s_Projectile_get_rect pr1) (s_get_rect pl) then
        (let pl1 = s_Player_take_damage pl (s_proj_damage pr1) (direction_of (s_proj_vx pr1 > 0));
             (prs1, pl2, vo2, hs2) = s_update_projectiles cs prs pl1 vo hs
         in (pr1\<lparr> s_proj_active := False \<rparr> # prs1, pl2, vo2, hs2))
      else
        (let (prs1, pl2, vo2, hs2) = s_update_projectiles cs prs pl vo hs
         in (pr1 # prs1, pl2, vo2, hs2)))"

fun s_melee_henchmen :: "rect \<Rightarrow> henchman list \<Rightarrow> s_player \<Rightarrow> s_player \<times> henchman list" where
  "s_melee_henchmen r [] pl = (pl, [])"
| "s_melee_henchmen r (h # hs) pl =
     (if s_state h \<noteq> S_DEAD \<and> colliderect r (s_get_rect h)
      then (let h1 = s_Entity_take_damage h (get_damage pl) (direction_of (s_facing_right pl));
                (pl2, hs1) = s_melee_henchmen r hs (s_register_hit pl)
            in (pl2, h1 # hs1))
      else (let (pl2, hs1) = s_melee_henchmen r hs pl in (pl2, h # hs1)))"

definition s_player_melee ::
  "config_store \<Rightarrow> s_player \<Rightarrow> villain option \<Rightarrow> henchman list
     \<Rightarrow> s_player \<times> villain option \<times> henchman list" where
  "s_player_melee cs pl vo hs =
     (let atk_rect = s_get_attack_rect pl in
      if truthy atk_rect then
        (let (pl1, vo1) =
               (if villain_alive vo \<and> colliderect (the atk_rect) (s_get_rect (the vo))
                then (s_register_hit pl,
                      Some (Villain_take_damage cs (the vo) (get_damage pl)
                              (direction_of (s_facing_right pl))))
                else (pl, vo));
             (pl2, hs1) = s_melee_henchmen (the atk_rect) hs pl1
         in (pl2, vo1, hs1))
      else (pl, vo, hs))"

definition s_villain_melee :: "config_store \<Rightarrow> villain option \<Rightarrow> s_player \<Rightarrow> s_player" where
  "s_villain_melee cs vo pl =
     (if villain_alive vo then
        (let v = the vo; vatk = Villain_get_attack_rect cs v in
         if truthy vatk \<and> colliderect (the vatk) (s_get_rect pl) then
           (let dmg = (if s_current_attack v = S_SPECIAL_ATTACK
                       then vc_special_damage (cs (villain_type v))
                       else vc_damage (cs (villain_type v)))
            in s_Player_take_damage pl dmg (direction_of (s_facing_right v)))
         else pl)
      else pl)"

fun s_henchmen_melee :: "henchman list \<Rightarrow> s_player \<Rightarrow> s_player" where
  "s_henchmen_melee [] pl = pl"
| "s_henchmen_melee (h # hs) pl =
     (if s_state h \<noteq> S_DEAD then
        (let hatk = Henchman_get_attack_rect h in
         if truthy hatk \<and> colliderect (the hatk) (s_get_rect pl)
         then s_henchmen_melee hs (s_Player_take_damage pl (h_damage h) (direction_of (s_facing_right h)))
         else s_henchmen_melee hs pl)
      else s_henchmen_melee hs pl)"

fun s_update_pickups :: "s_pickup list \<Rightarrow> s_player \<Rightarrow> s_pickup list \<times> s_player" where
  "s_update_pickups [] pl = ([], pl)"
| "s_update_pickups (k # ks) pl =
     (let k1 = s_HealthPickup_update k in
      if \<not> s_pk_active k1 then s_update_pickups ks pl
      else if colliderect (s_HealthPickup_get_rect k1) (s_get_rect pl)
      then s_update_pickups ks (pl\<lparr> s_health := min (s_max_health pl) (s_health pl + heal k1) \<rparr>)
      else (let (ks1, pl1) = s_update_pickups ks pl in (k1 # ks1, pl1)))"

definition s_check_player_death :: "s_game \<Rightarrow> s_game" where
  \<comment> \<open>\<^verbatim>\<open># Player death - check for respawn\<close>\<close>
  "s_check_player_death g =
     (if s_state (s_the_player g) = S_DEAD then
        (let (ok, pl) = respawn (s_the_player g) in
         if ok then g\<lparr> s_the_player := pl \<rparr>
         else g\<lparr> s_the_player := pl, s_won := False, s_game_state := ''game_over'' \<rparr>)
      else g)"

definition s_resolve_collisions :: "s_game \<Rightarrow> s_game" where
  \<comment> \<open>\<^verbatim>\<open>Game.update\<close> from \<^verbatim>\<open># Update projectiles\<close> to its end\<close>
  "s_resolve_collisions g =
     (let cs = configs g;
          (prs, pl1, vo1, hs1) =
             s_update_projectiles cs (s_projectiles g) (s_the_player g) (the_villain g) (henchmen g);
          (pl2, vo2, hs2) = s_player_melee cs pl1 vo1 hs1;
          pl3 = s_villain_melee cs vo2 pl2;
          pl4 = s_henchmen_melee hs2 pl3;
          (ks, pl5) = s_update_pickups (s_pickups g) pl4
      in s_check_player_death
           (g\<lparr> s_the_player := pl5, the_villain := vo2, henchmen := hs2,
               s_projectiles := prs, s_pickups := ks \<rparr>))"

section \<open>Predicates used in the statements\<close>

definition alive :: "enemy \<Rightarrow> bool" where
  "alive e \<longleftrightarrow> state e \<noteq> DEAD"

definition dead_untouched :: "enemy list \<Rightarrow> enemy list \<Rightarrow> bool" where
  \<comment> \<open>the same enemies in the same order, and each one that was dead is exactly as it was\<close>
  "dead_untouched es es' \<longleftrightarrow> list_all2 (\<lambda>e e'. state e = DEAD \<longrightarrow> e' = e) es es'"

definition s_alive :: "'a s_entity_scheme \<Rightarrow> bool" where
  "s_alive e \<longleftrightarrow> s_state e \<noteq> S_DEAD"

definition s_dead_untouched :: "henchman list \<Rightarrow> henchman list \<Rightarrow> bool" where
  "s_dead_untouched hs hs' \<longleftrightarrow> list_all2 (\<lambda>h h'. s_state h = S_DEAD \<longrightarrow> h' = h) hs hs'"

definition villain_untouched :: "villain option \<Rightarrow> villain option \<Rightarrow> bool" where
  \<comment> \<open>a villain that is absent or dead is exactly as it was\<close>
  "villain_untouched vo vo' \<longleftrightarrow> (villain_alive vo \<or> vo' = vo)"

text \<open>The health invariant of the specification, for an entity of either program.\<close>

definition healthy :: "'a entity_scheme \<Rightarrow> bool" where
  "healthy e \<longleftrightarrow> 0 \<le> health e \<and> health e \<le> max_health e \<and> (health e = 0 \<longleftrightarrow> state e = DEAD)"

definition s_healthy :: "'a s_entity_scheme \<Rightarrow> bool" where
  "s_healthy e \<longleftrightarrow>
     0 \<le> s_health e \<and> s_health e \<le> s_max_health e \<and> (s_health e = 0 \<longleftrightarrow> s_state e = S_DEAD)"

section \<open>Example states\<close>

text \<open>Concrete states at which the theorems below are instantiated.\<close>

definition fallen_player :: s_player where
  \<comment> \<open>a player of the second program who has just been killed: two lives left, last safe
     position \<open>(300, 485)\<close> on the ground, killed at \<open>(420, 310)\<close> in mid-air during a combo\<close>
  "fallen_player = (s_Player 100 460)
     \<lparr> s_x := 420, s_y := 310, s_vx := - 5, s_vy := 12, s_state := S_DEAD, s_health := 0,
       s_invincibility := 45, s_current_attack := S_PUNCH, s_attack_duration := 7,
       lives := 2, last_safe_x := 300, last_safe_y := 485 \<rparr>"

definition no_game :: s_game where
  \<comment> \<open>an encounter of the second program with nothing on the field but the player's default\<close>
  "no_game = \<lparr> s_the_player = s_Player 100 460, the_villain = None, henchmen = [],
     s_projectiles = [], s_pickups = [], s_game_state = ''playing'', s_won = False,
     configs = VILLAIN_CONFIGS \<rparr>"

definition brawl :: game where
  \<comment> \<open>first program: a punching player, two thugs in reach of the punch, the nearer one
     with 20 health left and in the path of a batarang\<close>
  "brawl = \<lparr> the_player = (Player 100 470)
       \<lparr> current_attack := PUNCH, attack_duration := 14, punch_cooldown := 11, state := ATTACKING \<rparr>,
     enemies = [(Enemy 1 180 470 joker_thug)\<lparr> health := 20 \<rparr>, Enemy 2 165 470 joker_thug],
     projectiles = [(Projectile 136 496 18 0 20 True 600)\<lparr> proj_x := 172, distance_traveled := 36 \<rparr>],
     pickups = [], boss = 9, game_state = ''playing'', won = False, level_intro_timer = 0 \<rparr>"

definition s_brawl :: s_game where
  \<comment> \<open>second program: the same situation with two henchmen; the villain is already dead\<close>
  "s_brawl = \<lparr> s_the_player = (s_Player 100 485)
       \<lparr> s_current_attack := S_PUNCH, s_attack_duration := 11, punch_cd := 9, s_state := S_PUNCHING \<rparr>,
     the_villain = Some ((Villain VILLAIN_CONFIGS 5650 470 TWOFACE)\<lparr> s_state := S_DEAD, s_health := 0 \<rparr>),
     henchmen = [(Henchman 7 190 505 TWOFACE)\<lparr> s_health := 25 \<rparr>, Henchman 7 180 505 TWOFACE],
     s_projectiles = [(s_Projectile 160 516 18 0 25 True 600)\<lparr> s_proj_x := 178, traveled := 18 \<rparr>],
     s_pickups = [], s_game_state = ''playing'', s_won = False, configs = VILLAIN_CONFIGS \<rparr>"

definition stunned_thug :: enemy where
  \<comment> \<open>a thug in reach of the punch of \<open>brawl\<close>'s player, hit one tick ago and still invincible\<close>
  "stunned_thug = (Enemy 2 165 470 joker_thug)\<lparr> health := 25, invincibility_frames := 29 \<rparr>"







definition last_stand :: game where
  \<comment> \<open>first program, at the start of collision resolution: the player, with 10 health, has
     just walked from \<open>x = 93\<close> to \<open>x = 100\<close> and now touches a health pickup; a thug 40
     pixels away has begun its melee attack (damage 10) in this tick's \<^verbatim>\<open>Enemy.update\<close>\<close>
  "last_stand = \<lparr> the_player = (Player 93 470)
        \<lparr> pos_x := 100, velocity_x := 7, health := 10, state := RUNNING \<rparr>,
     enemies = [(Enemy 4 140 470 joker_thug)
        \<lparr> current_attack := ENEMY_MELEE, attack_frame := 14, attack_cooldown := 45,
          facing_right := False, ai_state := ''attack'' \<rparr>],
     projectiles = [],
     pickups = [(HealthPickup 145 470)\<lparr> lifetime := 350 \<rparr>],
     boss = 9, game_state = ''playing'', won = False, level_intro_timer = 0 \<rparr>"

definition wounded_bane :: villain where
  \<comment> \<open>second program: Bane as \<^verbatim>\<open>start_level\<close> spawns him, brought below half of his health\<close>
  "wounded_bane = (Villain VILLAIN_CONFIGS 5650 445 BANE)\<lparr> s_health := 499 \<rparr>"

definition configs_after_venom :: config_store where
  \<comment> \<open>the dictionary \<^verbatim>\<open>VILLAIN_CONFIGS\<close> after \<open>wounded_bane\<close>'s phase check\<close>
  "configs_after_venom =
     (case check_phase_transition VILLAIN_CONFIGS wounded_bane of
        Inr (cs, v) \<Rightarrow> cs | Inl err \<Rightarrow> VILLAIN_CONFIGS)"


section \<open>Respawn (batman\_arkham\_shadows.py)\<close>

text \<open>
  Claim C9. For a player whose \<open>lives\<close> is 0 or negative, \<^verbatim>\<open>respawn()\<close> returns
  \<^verbatim>\<open>False\<close> and the player object is exactly what it was: no field is reset. The death
  check of \<^verbatim>\<open>Game.update\<close>, which calls it, therefore leaves such a player unchanged too.
\<close>

theorem respawn_without_lives_changes_nothing:
  "lives p \<le> 0 \<Longrightarrow>
     respawn p = (False, p)
     \<and> (s_the_player g = p \<longrightarrow> s_the_player (s_check_player_death g) = p)"
  by (simp add: respawn_def s_check_player_death_def)

theorem respawn_without_lives_changes_nothing_witness:
  "lives (fallen_player\<lparr> lives := 0 \<rparr>) \<le> 0
   \<and> respawn (fallen_player\<lparr> lives := 0 \<rparr>) = (False, fallen_player\<lparr> lives := 0 \<rparr>)
   \<and> s_state (snd (respawn (fallen_player\<lparr> lives := 0 \<rparr>))) = S_DEAD
   \<and> s_health (snd (respawn (fallen_player\<lparr> lives := 0 \<rparr>))) = 0
   \<and> s_the_player (s_check_player_death (no_game\<lparr> s_the_player := fallen_player\<lparr> lives := 0 \<rparr> \<rparr>))
       = fallen_player\<lparr> lives := 0 \<rparr>"
  using respawn_without_lives_changes_nothing [of "fallen_player\<lparr> lives := 0 \<rparr>"
      "no_game\<lparr> s_the_player := fallen_player\<lparr> lives := 0 \<rparr> \<rparr>"]
  by (simp add: fallen_player_def s_Player_def)

text \<open>
  Claim C6. When a dead player has lives left, the death check of \<^verbatim>\<open>Game.update\<close> respawns:
  \<open>lives\<close> drops by one, health is \<open>max_health\<close>, the position is \<open>last_safe_x/y\<close>,
  velocity, combo and active attack are cleared, the state is \<open>IDLE\<close>, and the
  invincibility window (120) is longer than the one a hit grants (45); the game goes on.
  \<open>last_safe_x/y\<close> is written by \<^verbatim>\<open>update_checkpoint\<close> only, with the current position, and
  only while the player is on the ground and not dead; taking damage leaves it alone.
  With no lives left the game state becomes \<^verbatim>\<open>game_over\<close> with \<open>won = False\<close> and the
  player stays dead.
\<close>

theorem respawn_restores_player:
  "(0 < lives p \<longrightarrow>
      respawn p = (True, snd (respawn p))
      \<and> lives (snd (respawn p)) = lives p - 1
      \<and> s_health (snd (respawn p)) = s_max_health p
      \<and> s_x (snd (respawn p)) = last_safe_x p \<and> s_y (snd (respawn p)) = last_safe_y p
      \<and> s_vx (snd (respawn p)) = 0 \<and> s_vy (snd (respawn p)) = 0
      \<and> combo (snd (respawn p)) = 0 \<and> s_combo_timer (snd (respawn p)) = 0
      \<and> s_current_attack (snd (respawn p)) = S_NONE \<and> s_attack_duration (snd (respawn p)) = 0
      \<and> s_state (snd (respawn p)) = S_IDLE
      \<and> s_invincibility (snd (respawn p)) = S_RESPAWN_INVINCIBILITY
      \<and> (s_invincibility q \<le> 0 \<longrightarrow>
           s_invincibility (s_Player_take_damage q amount dir) < s_invincibility (snd (respawn p))))
   \<and> (s_state (s_the_player g) = S_DEAD \<and> 0 < lives (s_the_player g) \<longrightarrow>
        s_check_player_death g = g\<lparr> s_the_player := snd (respawn (s_the_player g)) \<rparr>)
   \<and> (s_state (s_the_player g') = S_DEAD \<and> lives (s_the_player g') \<le> 0 \<longrightarrow>
        s_check_player_death g' = g'\<lparr> s_won := False, s_game_state := ''game_over'' \<rparr>)
   \<and> (last_safe_x (update_checkpoint q), last_safe_y (update_checkpoint q)) =
        (if s_is_on_ground q \<and> s_state q \<noteq> S_DEAD then (s_x q, s_y q)
         else (last_safe_x q, last_safe_y q))
   \<and> last_safe_x (s_Player_take_damage q amount dir) = last_safe_x q
   \<and> last_safe_y (s_Player_take_damage q amount dir) = last_safe_y q"
proof -
  have alive: "0 < lives p \<Longrightarrow> respawn p = (True, snd (respawn p))"
    by (simp add: respawn_def)
  have fields: "0 < lives p \<Longrightarrow>
      lives (snd (respawn p)) = lives p - 1
      \<and> s_health (snd (respawn p)) = s_max_health p
      \<and> s_x (snd (respawn p)) = last_safe_x p \<and> s_y (snd (respawn p)) = last_safe_y p
      \<and> s_vx (snd (respawn p)) = 0 \<and> s_vy (snd (respawn p)) = 0
      \<and> combo (snd (respawn p)) = 0 \<and> s_combo_timer (snd (respawn p)) = 0
      \<and> s_current_attack (snd (respawn p)) = S_NONE \<and> s_attack_duration (snd (respawn p)) = 0
      \<and> s_state (snd (respawn p)) = S_IDLE
      \<and> s_invincibility (snd (respawn p)) = S_RESPAWN_INVINCIBILITY"
    by (simp add: respawn_def)
  have window: "0 < lives p \<Longrightarrow> s_invincibility q \<le> 0 \<Longrightarrow>
      s_invincibility (s_Player_take_damage q amount dir) < s_invincibility (snd (respawn p))"
    by (simp add: respawn_def s_Player_take_damage_def S_RESPAWN_INVINCIBILITY_def
        S_HIT_INVINCIBILITY_def)
  have goes_on: "s_state (s_the_player g) = S_DEAD \<and> 0 < lives (s_the_player g) \<Longrightarrow>
      s_check_player_death g = g\<lparr> s_the_player := snd (respawn (s_the_player g)) \<rparr>"
    by (simp add: s_check_player_death_def respawn_def)
  have terminal: "s_state (s_the_player g') = S_DEAD \<and> lives (s_the_player g') \<le> 0 \<Longrightarrow>
      s_check_player_death g' = g'\<lparr> s_won := False, s_game_state := ''game_over'' \<rparr>"
    by (simp add: s_check_player_death_def respawn_def)
  have checkpoint: "(last_safe_x (update_checkpoint q), last_safe_y (update_checkpoint q)) =
        (if s_is_on_ground q \<and> s_state q \<noteq> S_DEAD then (s_x q, s_y q)
         else (last_safe_x q, last_safe_y q))"
    by (simp add: update_checkpoint_def)
  have frame: "last_safe_x (s_Player_take_damage q amount dir) = last_safe_x q
      \<and> last_safe_y (s_Player_take_damage q amount dir) = last_safe_y q"
    by (simp add: s_Player_take_damage_def s_Entity_take_damage_def Let_def)
  from alive fields window goes_on terminal checkpoint frame show ?thesis
    by blast
qed

theorem respawn_restores_player_witness:
  "lives fallen_player = 2
   \<and> respawn fallen_player = (True, snd (respawn fallen_player))
   \<and> lives (snd (respawn fallen_player)) = 1
   \<and> s_health (snd (respawn fallen_player)) = 150
   \<and> s_x (snd (respawn fallen_player)) = 300 \<and> s_y (snd (respawn fallen_player)) = 485
   \<and> s_vx (snd (respawn fallen_player)) = 0 \<and> s_vy (snd (respawn fallen_player)) = 0
   \<and> combo (snd (respawn fallen_player)) = 0
   \<and> s_current_attack (snd (respawn fallen_player)) = S_NONE
   \<and> s_state (snd (respawn fallen_player)) = S_IDLE
   \<and> s_invincibility (snd (respawn fallen_player)) = 120
   \<and> s_invincibility (s_Player_take_damage (s_Player 100 485) 12 1) = 45
   \<and> s_game_state (s_check_player_death (no_game\<lparr> s_the_player := fallen_player \<rparr>)) = ''playing''
   \<and> s_state (s_the_player (s_check_player_death (no_game\<lparr> s_the_player := fallen_player \<rparr>)))
       = S_IDLE
   \<and> s_game_state (s_check_player_death
        (no_game\<lparr> s_the_player := fallen_player\<lparr> lives := 0 \<rparr> \<rparr>)) = ''game_over''
   \<and> s_state (s_the_player (s_check_player_death
        (no_game\<lparr> s_the_player := fallen_player\<lparr> lives := 0 \<rparr> \<rparr>))) = S_DEAD
   \<and> s_is_on_ground (s_Player 100 485)
   \<and> last_safe_x (update_checkpoint ((s_Player 100 485)\<lparr> s_x := 220 \<rparr>)) = 220
   \<and> \<not> s_is_on_ground (s_Player 100 460)
   \<and> last_safe_x (update_checkpoint ((s_Player 100 460)\<lparr> s_x := 220 \<rparr>)) = 100"
  using respawn_restores_player [of fallen_player "s_Player 100 485" 12 1
      "no_game\<lparr> s_the_player := fallen_player \<rparr>"
      "no_game\<lparr> s_the_player := fallen_player\<lparr> lives := 0 \<rparr> \<rparr>"]
  by (simp add: fallen_player_def no_game_def s_Player_def s_is_on_ground_def
      S_GROUND_LEVEL_def S_MAX_HEALTH_def S_RESPAWN_INVINCIBILITY_def
      s_Player_take_damage_def s_Entity_take_damage_def S_HIT_INVINCIBILITY_def
      update_checkpoint_def)

section \<open>Projectiles\<close>

subsection \<open>batman\_arkham\_2d.py\<close>









subsection \<open>batman\_arkham\_shadows.py\<close>









subsection \<open>The flight of a projectile\<close>




section \<open>Collision resolution\<close>

subsection \<open>batman\_arkham\_2d.py\<close>

lemma py_int_of_int [simp]: "py_int (of_int n) = n"
  by (simp add: py_int_def)

lemma dead_untouched_refl: "dead_untouched es es"
  by (simp add: dead_untouched_def list_all2_refl)

lemma dead_untouched_Cons:
  "dead_untouched (e # es) (e' # es') \<longleftrightarrow> (state e = DEAD \<longrightarrow> e' = e) \<and> dead_untouched es es'"
  by (simp add: dead_untouched_def)

lemma dead_untouched_trans:
  "dead_untouched es es' \<Longrightarrow> dead_untouched es' es'' \<Longrightarrow> dead_untouched es es''"
  unfolding dead_untouched_def
  by (induction es es' arbitrary: es'' rule: list_all2_induct) (auto simp: list_all2_Cons1)

lemma hit_first_enemy_dead: "dead_untouched es (fst (hit_first_enemy pr es))"
  by (induction es) (simp_all add: dead_untouched_Cons dead_untouched_refl split_beta)

lemma hit_first_enemy_filter:
  "snd (hit_first_enemy pr (filter alive es)) = snd (hit_first_enemy pr es)"
  by (induction es) (simp_all add: alive_def split_beta)

lemma update_projectiles_dead:
  "dead_untouched es (snd (snd (update_projectiles prs pl es)))"
proof (induction prs arbitrary: pl es)
  case Nil
  show ?case by (simp add: dead_untouched_refl)
next
  case (Cons pr prs)
  have step: "dead_untouched es
     (snd (snd (update_projectiles prs q (fst (hit_first_enemy (Projectile_update pr) es)))))" for q
    using dead_untouched_trans [OF hit_first_enemy_dead Cons.IH] .
  show ?case
    by (simp add: Let_def split_beta Cons.IH step)
qed

lemma update_projectiles_append:
  "update_projectiles (a @ b) pl es =
     (let (o1, pl1, es1) = update_projectiles a pl es;
          (o2, pl2, es2) = update_projectiles b pl1 es1
      in (o1 @ o2, pl2, es2))"
  by (induction a arbitrary: pl es) (simp_all add: Let_def split_beta)

lemma melee_loop_dead: "dead_untouched es (snd (melee_loop r es pl))"
  by (induction es arbitrary: pl)
     (simp_all add: dead_untouched_Cons dead_untouched_refl Let_def split_beta)

lemma melee_loop_filter:
  "fst (melee_loop r (filter alive es) pl) = fst (melee_loop r es pl)"
  by (induction es arbitrary: pl) (simp_all add: alive_def Let_def split_beta)

lemma player_melee_dead: "dead_untouched es (snd (player_melee pl es))"
  by (simp add: player_melee_def Let_def melee_loop_dead dead_untouched_refl)

lemma player_melee_filter:
  "fst (player_melee pl (filter alive es)) = fst (player_melee pl es)"
  by (simp add: player_melee_def Let_def melee_loop_filter)

lemma enemy_melee_filter: "enemy_melee (filter alive es) pl = enemy_melee es pl"
  by (induction es arbitrary: pl) (simp_all add: alive_def Let_def)

lemma melee_loop_combo:
  "combo_count (fst (melee_loop r es pl)) =
     combo_count pl + int (length (filter (\<lambda>e. state e \<noteq> DEAD \<and> colliderect r (get_rect e)) es))"
  by (induction es arbitrary: pl) (simp_all add: Let_def split_beta register_hit_def)

lemma Enemy_take_damage_invincible:
  "invincibility_frames e > 0 \<Longrightarrow> Enemy_take_damage e amount d = e"
  by (simp add: Enemy_take_damage_def Entity_take_damage_def)

lemma melee_loop_invincible:
  "list_all2 (\<lambda>e e'. invincibility_frames e > 0 \<longrightarrow> e' = e) es (snd (melee_loop r es pl))"
  by (induction es arbitrary: pl)
     (simp_all add: Let_def split_beta Enemy_take_damage_invincible)

subsection \<open>batman\_arkham\_shadows.py\<close>

lemma s_dead_untouched_refl: "s_dead_untouched hs hs"
  by (simp add: s_dead_untouched_def list_all2_refl)

lemma s_dead_untouched_Cons:
  "s_dead_untouched (h # hs) (h' # hs') \<longleftrightarrow> (s_state h = S_DEAD \<longrightarrow> h' = h) \<and> s_dead_untouched hs hs'"
  by (simp add: s_dead_untouched_def)

lemma s_dead_untouched_trans:
  "s_dead_untouched hs hs' \<Longrightarrow> s_dead_untouched hs' hs'' \<Longrightarrow> s_dead_untouched hs hs''"
  unfolding s_dead_untouched_def
  by (induction hs hs' arbitrary: hs'' rule: list_all2_induct) (auto simp: list_all2_Cons1)

lemma villain_untouched_refl: "villain_untouched vo vo"
  by (simp add: villain_untouched_def)

lemma villain_untouched_trans:
  "villain_untouched vo vo' \<Longrightarrow> villain_untouched vo' vo'' \<Longrightarrow> villain_untouched vo vo''"
  by (auto simp: villain_untouched_def)

lemma s_hit_first_henchman_dead: "s_dead_untouched hs (fst (s_hit_first_henchman pr hs))"
  by (induction hs) (simp_all add: s_dead_untouched_Cons s_dead_untouched_refl split_beta)

lemma s_hit_first_henchman_filter:
  "snd (s_hit_first_henchman pr (filter s_alive hs)) = snd (s_hit_first_henchman pr hs)"
  by (induction hs) (simp_all add: s_alive_def split_beta)

lemma s_update_projectiles_dead:
  "s_dead_untouched hs (snd (snd (snd (s_update_projectiles cs prs pl vo hs))))
   \<and> villain_untouched vo (fst (snd (snd (s_update_projectiles cs prs pl vo hs))))"
proof (induction prs arbitrary: pl vo hs)
  case Nil
  show ?case by (simp add: s_dead_untouched_refl villain_untouched_refl)
next
  case (Cons pr prs)
  have hench: "s_dead_untouched hs
     (snd (snd (snd (s_update_projectiles cs prs q w
        (fst (s_hit_first_henchman (s_Projectile_update pr) hs))))))" for q w
    using s_dead_untouched_trans [OF s_hit_first_henchman_dead] Cons.IH by blast
  have vill: "villain_alive vo \<Longrightarrow> villain_untouched vo w" for w
    by (simp add: villain_untouched_def)
  show ?case
    by (simp add: Let_def split_beta Cons.IH hench vill)
qed

lemma s_update_projectiles_append:
  "s_update_projectiles cs (a @ b) pl vo hs =
     (let (o1, pl1, vo1, hs1) = s_update_projectiles cs a pl vo hs;
          (o2, pl2, vo2, hs2) = s_update_projectiles cs b pl1 vo1 hs1
      in (o1 @ o2, pl2, vo2, hs2))"
  by (induction a arbitrary: pl vo hs) (simp_all add: Let_def split_beta)

lemma s_melee_henchmen_dead: "s_dead_untouched hs (snd (s_melee_henchmen r hs pl))"
  by (induction hs arbitrary: pl)
     (simp_all add: s_dead_untouched_Cons s_dead_untouched_refl Let_def split_beta)

lemma s_melee_henchmen_filter:
  "fst (s_melee_henchmen r (filter s_alive hs) pl) = fst (s_melee_henchmen r hs pl)"
  by (induction hs arbitrary: pl) (simp_all add: s_alive_def Let_def split_beta)

lemma s_player_melee_dead:
  "s_dead_untouched hs (snd (snd (s_player_melee cs pl vo hs)))
   \<and> villain_untouched vo (fst (snd (s_player_melee cs pl vo hs)))"
  by (simp add: s_player_melee_def Let_def split_beta s_melee_henchmen_dead
      s_dead_untouched_refl villain_untouched_def)

lemma s_player_melee_filter:
  "fst (s_player_melee cs pl vo (filter s_alive hs)) = fst (s_player_melee cs pl vo hs)"
  by (simp add: s_player_melee_def Let_def split_beta s_melee_henchmen_filter)

lemma s_player_melee_dead_villain:
  "\<not> villain_alive vo \<Longrightarrow>
     fst (s_player_melee cs pl vo hs) = fst (s_player_melee cs pl None hs)"
  by (simp add: s_player_melee_def Let_def split_beta villain_alive_def)

lemma s_henchmen_melee_filter: "s_henchmen_melee (filter s_alive hs) pl = s_henchmen_melee hs pl"
  by (induction hs arbitrary: pl) (simp_all add: s_alive_def Let_def)

lemma s_villain_melee_dead: "\<not> villain_alive vo \<Longrightarrow> s_villain_melee cs vo pl = pl"
  by (simp add: s_villain_melee_def)

subsection \<open>Evaluation of the example states\<close>

lemmas example_defs = Player_def Enemy_def Projectile_def joker_thug_def player_stats_defs
  s_Player_def Henchman_def Villain_def s_Projectile_def VillainConfig_defaults_def
  S_MAX_HEALTH_def S_MAX_LIVES_def S_MAX_JUMPS_def S_PUNCH_DAMAGE_def S_KICK_DAMAGE_def
  S_PUNCH_RANGE_def S_KICK_RANGE_def S_HIT_INVINCIBILITY_def S_COMBO_WINDOW_def
  S_COMBO_DAMAGE_BONUS_def S_MAX_COMBO_MULTIPLIER_def

lemmas step_defs = Projectile_update_def Projectile_get_rect_def get_rect_def Rect_def
  colliderect_def Enemy_take_damage_def Entity_take_damage_def register_hit_def
  direction_of_def get_attack_rect_def get_attack_damage_def truthy_def player_melee_def
  Enemy_get_attack_rect_def Player_take_damage_def py_int_def floor_eq_iff Let_def
  s_Projectile_update_def s_Projectile_get_rect_def s_get_rect_def s_Entity_take_damage_def
  s_register_hit_def s_get_attack_rect_def get_damage_def s_player_melee_def
  Villain_get_attack_rect_def Villain_take_damage_def Henchman_get_attack_rect_def
  s_Player_take_damage_def villain_alive_def s_villain_melee_def

lemma brawl_projectiles:
  "update_projectiles (projectiles brawl) (the_player brawl) (enemies brawl) =
     ([(Projectile 136 496 18 0 20 True 600)
         \<lparr> proj_x := 190, distance_traveled := 54, angle := 15, proj_active := False \<rparr>],
      (the_player brawl)\<lparr> combo_count := 1, combo_timer := 100 \<rparr>,
      [(Enemy 1 180 470 joker_thug)
         \<lparr> health := 0, state := DEAD, invincibility_frames := 30, velocity_x := 5 \<rparr>,
       Enemy 2 165 470 joker_thug])"
  by (simp add: brawl_def example_defs step_defs)

lemma brawl_melee:
  "player_melee ((the_player brawl)\<lparr> combo_count := 1, combo_timer := 100 \<rparr>)
      [(Enemy 1 180 470 joker_thug)
         \<lparr> health := 0, state := DEAD, invincibility_frames := 30, velocity_x := 5 \<rparr>,
       Enemy 2 165 470 joker_thug] =
     ((the_player brawl)\<lparr> combo_count := 2, combo_timer := 100 \<rparr>,
      [(Enemy 1 180 470 joker_thug)
         \<lparr> health := 0, state := DEAD, invincibility_frames := 30, velocity_x := 5 \<rparr>,
       (Enemy 2 165 470 joker_thug)
         \<lparr> health := 20, invincibility_frames := 30, velocity_x := 5 \<rparr>])"
  by (simp add: brawl_def example_defs step_defs)

lemma s_brawl_projectiles:
  "s_update_projectiles (configs s_brawl) (s_projectiles s_brawl) (s_the_player s_brawl)
      (the_villain s_brawl) (henchmen s_brawl) =
     ([(s_Projectile 160 516 18 0 25 True 600)
         \<lparr> s_proj_x := 196, traveled := 36, s_angle := 12, s_proj_active := False \<rparr>],
      (s_the_player s_brawl)\<lparr> combo := 1, s_combo_timer := 100 \<rparr>,
      the_villain s_brawl,
      [(Henchman 7 190 505 TWOFACE)
         \<lparr> s_health := 0, s_state := S_DEAD, s_invincibility := 30, s_vx := 5 \<rparr>,
       Henchman 7 180 505 TWOFACE])"
  by (simp add: s_brawl_def example_defs step_defs)

lemma s_brawl_melee:
  "s_player_melee (configs s_brawl) ((s_the_player s_brawl)\<lparr> combo := 1, s_combo_timer := 100 \<rparr>)
      (the_villain s_brawl)
      [(Henchman 7 190 505 TWOFACE)
         \<lparr> s_health := 0, s_state := S_DEAD, s_invincibility := 30, s_vx := 5 \<rparr>,
       Henchman 7 180 505 TWOFACE] =
     ((s_the_player s_brawl)\<lparr> combo := 2, s_combo_timer := 100 \<rparr>,
      the_villain s_brawl,
      [(Henchman 7 190 505 TWOFACE)
         \<lparr> s_health := 0, s_state := S_DEAD, s_invincibility := 30, s_vx := 5 \<rparr>,
       (Henchman 7 180 505 TWOFACE)
         \<lparr> s_health := 27, s_invincibility := 30, s_vx := 5 \<rparr>])"
  by (simp add: s_brawl_def example_defs step_defs)

lemma brawl_enemy_melee:
  "enemy_melee
      [(Enemy 1 180 470 joker_thug)
         \<lparr> health := 0, state := DEAD, invincibility_frames := 30, velocity_x := 5 \<rparr>,
       (Enemy 2 165 470 joker_thug)
         \<lparr> health := 20, invincibility_frames := 30, velocity_x := 5 \<rparr>] q = q"
  by (simp add: Enemy_def Enemy_get_attack_rect_def truthy_def)

lemma s_brawl_enemy_melee:
  "s_henchmen_melee
      [(Henchman 7 190 505 TWOFACE)
         \<lparr> s_health := 0, s_state := S_DEAD, s_invincibility := 30, s_vx := 5 \<rparr>,
       (Henchman 7 180 505 TWOFACE)
         \<lparr> s_health := 27, s_invincibility := 30, s_vx := 5 \<rparr>]
      (s_villain_melee (configs s_brawl) (the_villain s_brawl) q) = q"
  by (simp add: Henchman_def Henchman_get_attack_rect_def truthy_def s_villain_melee_def
      villain_alive_def s_brawl_def)


subsection \<open>Order of resolution and dead opponents\<close>

text \<open>
  Claim C8. \<^verbatim>\<open>Game.update\<close> resolves damage in the order projectiles, player melee,
  opponent melee (then pickups and the death check), in both programs. Split the
  projectile list at any point into \<open>a @ b\<close>: the opponents that are dead before the
  tick, after the projectiles \<open>a\<close>, and after all projectiles are left exactly as they
  are by everything that follows in the tick (\<open>dead_untouched\<close>, \<open>villain_untouched\<close>),
  so no projectile and no melee hit is applied to an opponent that died earlier in the
  tick. Dead opponents take no part in any collision test: whether a projectile finds a
  target, what the player's melee does to the player's combo, and what the opponents'
  melee does to the player are the same with the dead opponents removed from the list.
\<close>

theorem dead_opponents_are_excluded:
  assumes "projectiles g = a @ b"
    and "update_projectiles a (the_player g) (enemies g) = (o1, pl1, es1)"
    and "update_projectiles b pl1 es1 = (o2, pl2, es2)"
    and "player_melee pl2 es2 = (pl3, es3)"
    and "s_projectiles sg = sa @ sb"
    and "s_update_projectiles (configs sg) sa (s_the_player sg) (the_villain sg) (henchmen sg)
           = (so1, sp1, sv1, sh1)"
    and "s_update_projectiles (configs sg) sb sp1 sv1 sh1 = (so2, sp2, sv2, sh2)"
    and "s_player_melee (configs sg) sp2 sv2 sh2 = (sp3, sv3, sh3)"
  shows "resolve_collisions g = check_player_death
            (g\<lparr> the_player := snd (update_pickups (pickups g) (enemy_melee es3 pl3)),
                enemies := es3, projectiles := o1 @ o2,
                pickups := fst (update_pickups (pickups g) (enemy_melee es3 pl3)) \<rparr>)
     \<and> dead_untouched (enemies g) es1 \<and> dead_untouched es1 es2 \<and> dead_untouched es2 es3
     \<and> snd (hit_first_enemy pr (filter alive es)) = snd (hit_first_enemy pr es)
     \<and> fst (player_melee pl2 (filter alive es2)) = pl3
     \<and> enemy_melee (filter alive es3) pl3 = enemy_melee es3 pl3
     \<and> s_resolve_collisions sg = s_check_player_death
            (sg\<lparr> s_the_player := snd (s_update_pickups (s_pickups sg)
                    (s_henchmen_melee sh3 (s_villain_melee (configs sg) sv3 sp3))),
                 the_villain := sv3, henchmen := sh3, s_projectiles := so1 @ so2,
                 s_pickups := fst (s_update_pickups (s_pickups sg)
                    (s_henchmen_melee sh3 (s_villain_melee (configs sg) sv3 sp3))) \<rparr>)
     \<and> s_dead_untouched (henchmen sg) sh1 \<and> s_dead_untouched sh1 sh2 \<and> s_dead_untouched sh2 sh3
     \<and> villain_untouched (the_villain sg) sv1 \<and> villain_untouched sv1 sv2
     \<and> villain_untouched sv2 sv3
     \<and> snd (s_hit_first_henchman spr (filter s_alive hs)) = snd (s_hit_first_henchman spr hs)
     \<and> fst (s_player_melee (configs sg) sp2 sv2 (filter s_alive sh2)) = sp3
     \<and> (\<not> villain_alive sv2 \<longrightarrow> fst (s_player_melee (configs sg) sp2 None sh2) = sp3)
     \<and> s_henchmen_melee (filter s_alive sh3) q = s_henchmen_melee sh3 q
     \<and> (\<not> villain_alive sv3 \<longrightarrow> s_villain_melee (configs sg) sv3 q = q)"
proof -
  have whole: "update_projectiles (projectiles g) (the_player g) (enemies g) = (o1 @ o2, pl2, es2)"
    by (simp add: assms(1-3) update_projectiles_append)
  have order: "resolve_collisions g = check_player_death
            (g\<lparr> the_player := snd (update_pickups (pickups g) (enemy_melee es3 pl3)),
                enemies := es3, projectiles := o1 @ o2,
                pickups := fst (update_pickups (pickups g) (enemy_melee es3 pl3)) \<rparr>)"
    by (simp add: resolve_collisions_def whole assms(4) split_beta Let_def)
  have d1: "dead_untouched (enemies g) es1"
    using update_projectiles_dead [of "enemies g" a "the_player g"] by (simp add: assms(2))
  have d2: "dead_untouched es1 es2"
    using update_projectiles_dead [of es1 b pl1] by (simp add: assms(3))
  have d3: "dead_untouched es2 es3"
    using player_melee_dead [of es2 pl2] by (simp add: assms(4))
  have f1: "fst (player_melee pl2 (filter alive es2)) = pl3"
    by (simp add: player_melee_filter assms(4))
  have s_whole: "s_update_projectiles (configs sg) (s_projectiles sg) (s_the_player sg)
        (the_villain sg) (henchmen sg) = (so1 @ so2, sp2, sv2, sh2)"
    by (simp add: assms(5-7) s_update_projectiles_append)
  have s_order: "s_resolve_collisions sg = s_check_player_death
            (sg\<lparr> s_the_player := snd (s_update_pickups (s_pickups sg)
                    (s_henchmen_melee sh3 (s_villain_melee (configs sg) sv3 sp3))),
                 the_villain := sv3, henchmen := sh3, s_projectiles := so1 @ so2,
                 s_pickups := fst (s_update_pickups (s_pickups sg)
                    (s_henchmen_melee sh3 (s_villain_melee (configs sg) sv3 sp3))) \<rparr>)"
    by (simp add: s_resolve_collisions_def s_whole assms(8) split_beta Let_def)
  have s1: "s_dead_untouched (henchmen sg) sh1 \<and> villain_untouched (the_villain sg) sv1"
    using s_update_projectiles_dead [of "henchmen sg" "configs sg" sa "s_the_player sg" "the_villain sg"]
    by (simp add: assms(6))
  have s2: "s_dead_untouched sh1 sh2 \<and> villain_untouched sv1 sv2"
    using s_update_projectiles_dead [of sh1 "configs sg" sb sp1 sv1] by (simp add: assms(7))
  have s3: "s_dead_untouched sh2 sh3 \<and> villain_untouched sv2 sv3"
    using s_player_melee_dead [of sh2 "configs sg" sp2 sv2] by (simp add: assms(8))
  have sf: "fst (s_player_melee (configs sg) sp2 sv2 (filter s_alive sh2)) = sp3"
    by (simp add: s_player_melee_filter assms(8))
  have sv: "\<not> villain_alive sv2 \<longrightarrow> fst (s_player_melee (configs sg) sp2 None sh2) = sp3"
    using s_player_melee_dead_villain [of sv2 "configs sg" sp2 sh2] by (simp add: assms(8))
  show ?thesis
    using order d1 d2 d3 f1 s_order s1 s2 s3 sf sv
    by (simp add: hit_first_enemy_filter enemy_melee_filter s_hit_first_henchman_filter
        s_henchmen_melee_filter s_villain_melee_dead)
qed

theorem dead_opponents_are_excluded_witness:
  "state (enemies (resolve_collisions brawl) ! 0) = DEAD
   \<and> health (enemies (resolve_collisions brawl) ! 0) = 0
   \<and> velocity_x (enemies (resolve_collisions brawl) ! 0) = 5
   \<and> health (enemies (resolve_collisions brawl) ! 1) = 20
   \<and> combo_count (the_player (resolve_collisions brawl)) = 2
   \<and> \<not> proj_active (projectiles (resolve_collisions brawl) ! 0)
   \<and> s_state (henchmen (s_resolve_collisions s_brawl) ! 0) = S_DEAD
   \<and> s_health (henchmen (s_resolve_collisions s_brawl) ! 0) = 0
   \<and> s_health (henchmen (s_resolve_collisions s_brawl) ! 1) = 27
   \<and> combo (s_the_player (s_resolve_collisions s_brawl)) = 2
   \<and> \<not> villain_alive (the_villain s_brawl)
   \<and> the_villain (s_resolve_collisions s_brawl) = the_villain s_brawl"
proof -
  have a1: "projectiles brawl = projectiles brawl @ []" by simp
  have a3: "update_projectiles [] q es = ([], q, es)" for q es by simp
  have b1: "s_projectiles s_brawl = s_projectiles s_brawl @ []" by simp
  have b3: "s_update_projectiles cs [] q vo hs = ([], q, vo, hs)" for cs q vo hs by simp
  note t = dead_opponents_are_excluded [OF a1 brawl_projectiles a3 brawl_melee
      b1 s_brawl_projectiles b3 s_brawl_melee]
  have r: "resolve_collisions brawl = check_player_death
      (brawl\<lparr> the_player := (the_player brawl)\<lparr> combo_count := 2, combo_timer := 100 \<rparr>,
         enemies := [(Enemy 1 180 470 joker_thug)
             \<lparr> health := 0, state := DEAD, invincibility_frames := 30, velocity_x := 5 \<rparr>,
           (Enemy 2 165 470 joker_thug)
             \<lparr> health := 20, invincibility_frames := 30, velocity_x := 5 \<rparr>],
         projectiles := [(Projectile 136 496 18 0 20 True 600)
             \<lparr> proj_x := 190, distance_traveled := 54, angle := 15, proj_active := False \<rparr>],
         pickups := [] \<rparr>)"
    unfolding conjunct1 [OF t] brawl_enemy_melee by (simp add: brawl_def)
  have sr: "s_resolve_collisions s_brawl = s_check_player_death
      (s_brawl\<lparr> s_the_player := (s_the_player s_brawl)\<lparr> combo := 2, s_combo_timer := 100 \<rparr>,
         the_villain := the_villain s_brawl,
         henchmen := [(Henchman 7 190 505 TWOFACE)
             \<lparr> s_health := 0, s_state := S_DEAD, s_invincibility := 30, s_vx := 5 \<rparr>,
           (Henchman 7 180 505 TWOFACE)
             \<lparr> s_health := 27, s_invincibility := 30, s_vx := 5 \<rparr>],
         s_projectiles := [(s_Projectile 160 516 18 0 25 True 600)
             \<lparr> s_proj_x := 196, traveled := 36, s_angle := 12, s_proj_active := False \<rparr>],
         s_pickups := [] \<rparr>)"
  proof -
    from t have "s_resolve_collisions s_brawl = s_check_player_death
            (s_brawl\<lparr> s_the_player := snd (s_update_pickups (s_pickups s_brawl)
                    (s_henchmen_melee [(Henchman 7 190 505 TWOFACE)
         \<lparr> s_health := 0, s_state := S_DEAD, s_invincibility := 30, s_vx := 5 \<rparr>,
       (Henchman 7 180 505 TWOFACE)
         \<lparr> s_health := 27, s_invincibility := 30, s_vx := 5 \<rparr>] (s_villain_melee (configs s_brawl) (the_villain s_brawl) ((s_the_player s_brawl)\<lparr> combo := 2, s_combo_timer := 100 \<rparr>)))),
                 the_villain := the_villain s_brawl, henchmen := [(Henchman 7 190 505 TWOFACE)
         \<lparr> s_health := 0, s_state := S_DEAD, s_invincibility := 30, s_vx := 5 \<rparr>,
       (Henchman 7 180 505 TWOFACE)
         \<lparr> s_health := 27, s_invincibility := 30, s_vx := 5 \<rparr>], s_projectiles := [(s_Projectile 160 516 18 0 25 True 600)
         \<lparr> s_proj_x := 196, traveled := 36, s_angle := 12, s_proj_active := False \<rparr>] @ [],
                 s_pickups := fst (s_update_pickups (s_pickups s_brawl)
                    (s_henchmen_melee [(Henchman 7 190 505 TWOFACE)
         \<lparr> s_health := 0, s_state := S_DEAD, s_invincibility := 30, s_vx := 5 \<rparr>,
       (Henchman 7 180 505 TWOFACE)
         \<lparr> s_health := 27, s_invincibility := 30, s_vx := 5 \<rparr>] (s_villain_melee (configs s_brawl) (the_villain s_brawl) ((s_the_player s_brawl)\<lparr> combo := 2, s_combo_timer := 100 \<rparr>)))) \<rparr>)"
      by blast
    then show ?thesis
      unfolding s_brawl_enemy_melee by (simp add: s_brawl_def)
  qed
  have e: "state (the_player brawl) \<noteq> DEAD" "s_state (s_the_player s_brawl) \<noteq> S_DEAD"
    by (simp_all add: brawl_def s_brawl_def Player_def s_Player_def)
  have v: "\<not> villain_alive (the_villain s_brawl)"
    by (simp add: villain_alive_def s_brawl_def)
  show ?thesis
    unfolding r sr using e v
    by (simp add: check_player_death_def s_check_player_death_def Enemy_def Henchman_def
        Projectile_def joker_thug_def)
qed

subsection \<open>Combo registration (batman\_arkham\_2d.py)\<close>

text \<open>
  Claim C10. On every tick on which a punch or kick is active (\<open>attack_duration > 0\<close>)
  the player has an attack rectangle, and the melee loop calls \<^verbatim>\<open>register_hit\<close> once
  for each living opponent that overlaps it, whether or not \<^verbatim>\<open>take_damage\<close> did
  anything: \<open>combo_count\<close> grows by the number of living overlapping opponents, while
  every opponent whose invincibility timer is running is left exactly as it was. So the
  combo can grow in a tick in which no opponent loses health, and an attack that overlaps
  an opponent for \<open>n\<close> ticks registers \<open>n\<close> hits. The hypothesis on \<open>height\<close> only says
  that the attack rectangle, of height \<open>height - 40\<close>, is not empty; a player's height
  is 80.
\<close>

theorem combo_registered_without_damage:
  assumes "current_attack pl = PUNCH \<or> current_attack pl = KICK"
    and "0 < attack_duration pl" and "height pl \<noteq> 40"
  shows "\<exists>r. get_attack_rect pl = Some r
      \<and> player_melee pl es = melee_loop r es pl
      \<and> combo_count (fst (player_melee pl es)) = combo_count pl
           + int (length (filter (\<lambda>e. state e \<noteq> DEAD \<and> colliderect r (get_rect e)) es))
      \<and> list_all2 (\<lambda>e e'. 0 < invincibility_frames e \<longrightarrow> e' = e) es (snd (player_melee pl es))"
proof -
  have live: "truthy (get_attack_rect pl)"
    using assms
    by (auto simp: get_attack_rect_def truthy_def Rect_def Let_def PUNCH_RANGE_def KICK_RANGE_def
        simp del: of_int_diff)
  then obtain r where r: "get_attack_rect pl = Some r" and t: "truthy (Some r)"
    by (cases "get_attack_rect pl") (simp_all add: truthy_def)
  have m: "player_melee pl es = melee_loop r es pl"
    using r t by (simp add: player_melee_def)
  show ?thesis
    using r m melee_loop_combo [of r es pl] melee_loop_invincible [of es r pl] by simp
qed


text \<open>
  The witness: three consecutive ticks of one punch next to a thug whose invincibility is
  running. The thug is unchanged and the combo counts 1, 2, 3.
\<close>

theorem combo_registered_without_damage_witness:
  "(let p0 = the_player brawl;
        p1 = fst (player_melee p0 [stunned_thug]);
        p2 = fst (player_melee (Player_update (handle_input False False p1)) [stunned_thug]);
        p3 = fst (player_melee (Player_update (handle_input False False p2)) [stunned_thug])
    in current_attack p0 = PUNCH \<and> attack_duration p0 = 14 \<and> height p0 = 80
       \<and> invincibility_frames stunned_thug = 29 \<and> state stunned_thug \<noteq> DEAD
       \<and> snd (player_melee p0 [stunned_thug]) = [stunned_thug]
       \<and> combo_count p0 = 0 \<and> combo_count p1 = 1 \<and> combo_count p2 = 2 \<and> combo_count p3 = 3
       \<and> attack_duration p3 = 12 \<and> current_attack p3 = PUNCH)"
proof -
  let ?p0 = "the_player brawl"
  have h: "current_attack ?p0 = PUNCH \<or> current_attack ?p0 = KICK" "0 < attack_duration ?p0"
    "height ?p0 \<noteq> 40"
    by (simp_all add: brawl_def Player_def)
  from combo_registered_without_damage [OF h, of "[stunned_thug]"]
  obtain r where r: "get_attack_rect ?p0 = Some r"
    and c: "combo_count (fst (player_melee ?p0 [stunned_thug])) = combo_count ?p0
           + int (length (filter (\<lambda>e. state e \<noteq> DEAD \<and> colliderect r (get_rect e)) [stunned_thug]))"
    and u: "list_all2 (\<lambda>e e'. 0 < invincibility_frames e \<longrightarrow> e' = e) [stunned_thug]
              (snd (player_melee ?p0 [stunned_thug]))"
    by blast
  have inv: "0 < invincibility_frames stunned_thug"
    by (simp add: stunned_thug_def Enemy_def)
  from u inv have same: "snd (player_melee ?p0 [stunned_thug]) = [stunned_thug]"
    by (auto simp: list_all2_Cons1)
  have p1: "fst (player_melee ?p0 [stunned_thug]) = ?p0\<lparr> combo_count := 1, combo_timer := 100 \<rparr>"
    by (simp add: brawl_def stunned_thug_def example_defs step_defs)
  have p2: "fst (player_melee (Player_update (handle_input False False
              (?p0\<lparr> combo_count := 1, combo_timer := 100 \<rparr>))) [stunned_thug])
            = ?p0\<lparr> combo_count := 2, combo_timer := 100, attack_duration := 13,
                   punch_cooldown := 10, animation_timer := 1, state := ATTACKING \<rparr>"
    by (simp add: brawl_def stunned_thug_def example_defs step_defs handle_input_def
        Player_update_def GRAVITY_def GROUND_LEVEL_def LEVEL_WIDTH_def is_on_ground_def)
  have p3: "fst (player_melee (Player_update (handle_input False False
              (?p0\<lparr> combo_count := 2, combo_timer := 100, attack_duration := 13,
                   punch_cooldown := 10, animation_timer := 1, state := ATTACKING \<rparr>))) [stunned_thug])
            = ?p0\<lparr> combo_count := 3, combo_timer := 100, attack_duration := 12,
                   punch_cooldown := 9, animation_timer := 2, state := ATTACKING \<rparr>"
    by (simp add: brawl_def stunned_thug_def example_defs step_defs handle_input_def
        Player_update_def GRAVITY_def GROUND_LEVEL_def LEVEL_WIDTH_def is_on_ground_def)
  show ?thesis
    unfolding Let_def p1 p2 p3 same
    using inv by (simp add: brawl_def Player_def stunned_thug_def Enemy_def)
qed

section \<open>Combo damage and score (batman\_arkham\_2d.py)\<close>










section \<open>Attack intents (batman\_arkham\_2d.py)\<close>

text \<open>
  What gates each attack and what it sets. A punch or a kick fires exactly when its own
  cooldown is 0 (or less) and no attack is active; a batarang fires exactly when its
  cooldown is 0 (or less). An attack that does not fire returns \<^verbatim>\<open>False\<close> or \<^verbatim>\<open>None\<close>
  and leaves the player as it was.
\<close>

lemma attack_gates:
  "(fst (punch p) \<longleftrightarrow> punch_cooldown p \<le> 0 \<and> attack_duration p \<le> 0)
   \<and> (fst (kick p) \<longleftrightarrow> kick_cooldown p \<le> 0 \<and> attack_duration p \<le> 0)
   \<and> (fst (throw_batarang p) \<noteq> None \<longleftrightarrow> batarang_cooldown p \<le> 0)"
  by (simp add: punch_def kick_def throw_batarang_def Let_def)

lemma attack_effects:
  "(fst (punch p) \<longrightarrow> attack_duration (snd (punch p)) = 15
        \<and> punch_cooldown (snd (punch p)) = PUNCH_COOLDOWN \<and> current_attack (snd (punch p)) = PUNCH)
   \<and> (fst (kick p) \<longrightarrow> attack_duration (snd (kick p)) = 20
        \<and> kick_cooldown (snd (kick p)) = KICK_COOLDOWN \<and> current_attack (snd (kick p)) = KICK)
   \<and> (fst (throw_batarang p) \<noteq> None \<longrightarrow> attack_duration (snd (throw_batarang p)) = 10
        \<and> batarang_cooldown (snd (throw_batarang p)) = BATARANG_COOLDOWN
        \<and> current_attack (snd (throw_batarang p)) = BATARANG)
   \<and> (\<not> fst (punch p) \<longrightarrow> snd (punch p) = p)
   \<and> (\<not> fst (kick p) \<longrightarrow> snd (kick p) = p)
   \<and> (fst (throw_batarang p) = None \<longrightarrow> snd (throw_batarang p) = p)"
  by (simp add: punch_def kick_def throw_batarang_def Let_def)

text \<open>
  Claim C2 says that every attack kind, the batarang included, fires only when no other
  attack is active. \<^verbatim>\<open>punch\<close> and \<^verbatim>\<open>kick\<close> test \<^verbatim>\<open>self.attack_duration <= 0\<close>;
  \<^verbatim>\<open>throw_batarang\<close> does not. Evaluated on a player who has just punched: the punch is
  active for 15 more ticks and a kick is refused, yet the batarang is thrown, it replaces
  the active attack, and the punch's hitbox is gone.
\<close>

theorem batarang_fires_during_punch:
  "fst (punch (Player 100 470))
   \<and> current_attack (snd (punch (Player 100 470))) = PUNCH
   \<and> attack_duration (snd (punch (Player 100 470))) = 15
   \<and> \<not> fst (kick (snd (punch (Player 100 470))))
   \<and> fst (throw_batarang (snd (punch (Player 100 470)))) \<noteq> None
   \<and> current_attack (snd (throw_batarang (snd (punch (Player 100 470))))) = BATARANG
   \<and> attack_duration (snd (throw_batarang (snd (punch (Player 100 470))))) = 10
   \<and> get_attack_rect (snd (punch (Player 100 470))) \<noteq> None
   \<and> get_attack_rect (snd (throw_batarang (snd (punch (Player 100 470))))) = None"
  by (simp add: punch_def kick_def throw_batarang_def get_attack_rect_def Player_def
      player_stats_defs Let_def)

section \<open>The player's melee hitbox (batman\_arkham\_2d.py)\<close>

text \<open>
  Claim C4 says that the player's attack rectangle is present only on a middle part of
  the attack's duration, absent on some frames of an active punch or kick. In the code
  \<^verbatim>\<open>Player.get_attack_rect\<close> returns a rectangle on every frame on which a punch or
  kick is active, and the frame test of \<^verbatim>\<open>Game.update\<close> compares \<^verbatim>\<open>attack_duration\<close>
  with itself, so the melee loop runs on each of these frames. Only
  \<^verbatim>\<open>Enemy.get_attack_rect\<close> has a window: it returns nothing while \<^verbatim>\<open>attack_frame < 5\<close>.
\<close>

theorem player_hitbox_live_on_every_frame:
  "(current_attack p = PUNCH \<or> current_attack p = KICK) \<Longrightarrow> 0 < attack_duration p \<Longrightarrow>
     get_attack_rect p \<noteq> None
     \<and> (height p \<noteq> 40 \<longrightarrow> player_melee p es = melee_loop (the (get_attack_rect p)) es p)"
  by (auto simp: get_attack_rect_def player_melee_def truthy_def Rect_def Let_def
      PUNCH_RANGE_def KICK_RANGE_def simp del: of_int_diff)

text \<open>
  The first and the last frame of a punch both have the hitbox; an enemy's attack at
  \<^verbatim>\<open>attack_frame = 4\<close> has none.
\<close>

theorem player_hitbox_live_on_every_frame_witness:
  "attack_duration (snd (punch (Player 100 470))) = 15
   \<and> attack_duration (handle_input False False (snd (punch (Player 100 470)))) = 14
   \<and> get_attack_rect (handle_input False False (snd (punch (Player 100 470))))
        = Some \<lparr> rect_x = 150, rect_y = 490, rect_w = 70, rect_h = 40 \<rparr>
   \<and> get_attack_rect ((snd (punch (Player 100 470)))\<lparr> attack_duration := 1 \<rparr>)
        = Some \<lparr> rect_x = 150, rect_y = 490, rect_w = 70, rect_h = 40 \<rparr>
   \<and> Enemy_get_attack_rect
        ((Enemy 4 160 470 joker_thug)\<lparr> current_attack := ENEMY_MELEE, attack_frame := 4 \<rparr>) = None"
  using player_hitbox_live_on_every_frame [of "handle_input False False (snd (punch (Player 100 470)))" "[]"]
    player_hitbox_live_on_every_frame [of "(snd (punch (Player 100 470)))\<lparr> attack_duration := 1 \<rparr>" "[]"]
  by (simp add: punch_def handle_input_def get_attack_rect_def Enemy_get_attack_rect_def
      Rect_def py_int_def Player_def Enemy_def player_stats_defs Let_def)

section \<open>The health invariant\<close>

text \<open>
  Damage keeps \<open>healthy\<close> for every entity of the first program (for an amount that is
  not negative, as all configured damages are), also when blocking cuts it to a third;
  so does a health pickup that a living player collects, and a respawn establishes it.
\<close>

lemma Entity_take_damage_healthy:
  "healthy e \<Longrightarrow> 0 \<le> amount \<Longrightarrow> healthy (Entity_take_damage e amount d)"
  by (auto simp: healthy_def Entity_take_damage_def Let_def)

lemma Enemy_take_damage_healthy:
  "healthy e \<Longrightarrow> 0 \<le> amount \<Longrightarrow> healthy (Enemy_take_damage e amount d)"
proof -
  assume h: "healthy e" and a: "0 \<le> amount"
  from a have "0 \<le> amount div 3" by simp
  with h a show ?thesis
    by (simp add: Enemy_take_damage_def Let_def Entity_take_damage_healthy)
qed

lemma Player_take_damage_healthy:
  "healthy p \<Longrightarrow> 0 \<le> amount \<Longrightarrow> healthy (Player_take_damage p amount d)"
  using Entity_take_damage_healthy [of p amount d]
  by (auto simp: Player_take_damage_def healthy_def)

lemma pickup_heals_living_healthy:
  "healthy p \<Longrightarrow> state p \<noteq> DEAD \<Longrightarrow> 0 \<le> h \<Longrightarrow>
     healthy (p\<lparr> health := min (max_health p) (health p + h) \<rparr>)"
  by (auto simp: healthy_def)

lemma respawn_healthy:
  "0 < lives p \<Longrightarrow> 0 < s_max_health p \<Longrightarrow> s_healthy (snd (respawn p))"
  by (simp add: respawn_def s_healthy_def)

text \<open>
  Claim C5 says that health is 0 exactly when the state is Dead after every operation,
  health pickups included. The pickup loop of \<^verbatim>\<open>Game.update\<close> does not look at the
  player's state: a player killed by an opponent's melee attack and touching a pickup in
  the same tick is healed while dead. Evaluated on \<open>last_stand\<close>: the tick ends in
  \<^verbatim>\<open>game_over\<close> with a player whose state is \<open>DEAD\<close> and whose health is 20.
\<close>

theorem pickup_heals_dead_player:
  "healthy (the_player last_stand)
   \<and> health (the_player last_stand) = 10 \<and> state (the_player last_stand) = RUNNING
   \<and> state (the_player (resolve_collisions last_stand)) = DEAD
   \<and> health (the_player (resolve_collisions last_stand)) = 20
   \<and> \<not> healthy (the_player (resolve_collisions last_stand))
   \<and> pickups (resolve_collisions last_stand) = []
   \<and> game_state (resolve_collisions last_stand) = ''game_over''"
  by (simp add: last_stand_def resolve_collisions_def check_player_death_def healthy_def
      HealthPickup_def HealthPickup_update_def HealthPickup_get_rect_def
      example_defs step_defs)

section \<open>Phase escalation (batman\_arkham\_shadows.py)\<close>

text \<open>
  The phase counter: Bane goes from phase 1 to 2 below half of his health, Deathstroke
  from 1 to 2 below 66 percent and from 2 to 3 below 33 percent. A check in any other
  phase, and a check of any other villain, changes neither the villain nor the
  dictionary, whatever the health: no threshold triggers twice.
\<close>

lemma bane_not_retriggered:
  "villain_type v = BANE \<Longrightarrow> phase v \<noteq> 1 \<Longrightarrow> s_max_health v \<noteq> 0 \<Longrightarrow>
     check_phase_transition cs v = Inr (cs, v)"
  by (simp add: check_phase_transition_def Let_def)

lemma deathstroke_not_retriggered:
  "villain_type v = DEATHSTROKE \<Longrightarrow> phase v \<noteq> 1 \<Longrightarrow> phase v \<noteq> 2 \<Longrightarrow>
   s_max_health v \<noteq> 0 \<Longrightarrow>
     check_phase_transition cs v = Inr (cs, v)"
  by (simp add: check_phase_transition_def Let_def)

lemma deathstroke_escalates:
  "villain_type v = DEATHSTROKE \<Longrightarrow> 1 < vc_phases (cs DEATHSTROKE) \<Longrightarrow> 0 < s_max_health v \<Longrightarrow>
     (phase v = 1 \<and> 100 * s_health v < 66 * s_max_health v \<longrightarrow>
        check_phase_transition cs v = Inr (cs, v\<lparr> phase := 2 \<rparr>))
     \<and> (phase v = 2 \<and> 100 * s_health v < 33 * s_max_health v \<longrightarrow>
        (\<exists>cs'. check_phase_transition cs v = Inr (cs', v\<lparr> phase := 3 \<rparr>)))"
  by (simp add: check_phase_transition_def Let_def field_simps)

lemma single_phase_villain_unchanged:
  "villain_type v \<noteq> BANE \<Longrightarrow> villain_type v \<noteq> DEATHSTROKE \<Longrightarrow> s_max_health v \<noteq> 0 \<Longrightarrow>
     check_phase_transition cs v = Inr (cs, v)"
  by (simp add: check_phase_transition_def Let_def)

lemma bane_escalates:
  "villain_type v = BANE \<Longrightarrow> 1 < vc_phases (cs BANE) \<Longrightarrow> phase v = 1 \<Longrightarrow>
   0 < s_max_health v \<Longrightarrow> 2 * s_health v < s_max_health v \<Longrightarrow>
     \<exists>cs'. check_phase_transition cs v = Inr (cs', v\<lparr> phase := 2, venom_active := True \<rparr>)
       \<and> vc_damage (cs' BANE) = py_int (of_int (vc_damage (cs BANE)) * (15 / 10))
       \<and> vc_speed (cs' BANE) = vc_speed (cs BANE) * (13 / 10)"
  by (simp add: check_phase_transition_def Let_def field_simps)

text \<open>
  Claim C1 says that the escalation boosts the instance only and never changes the
  shared configuration, so that a freshly spawned villain of the same archetype has the
  original damage and speed. \<^verbatim>\<open>_check_phase_transition\<close> assigns to
  \<^verbatim>\<open>self.config.damage\<close> and \<^verbatim>\<open>self.config.speed\<close>, and \<^verbatim>\<open>self.config\<close> is the entry of
  \<^verbatim>\<open>VILLAIN_CONFIGS\<close>. Evaluated on \<open>wounded_bane\<close>: the phase becomes 2 and does not
  trigger again at lower health, the dictionary's entry for Bane goes from damage 50 and
  speed 2.5 to damage 75 and speed 3.25, and a Bane spawned afterwards, in phase 1, reads
  damage 75.
\<close>

theorem venom_boost_reaches_next_bane:
  "vc_damage (VILLAIN_CONFIGS BANE) = 50 \<and> vc_speed (VILLAIN_CONFIGS BANE) = 5 / 2
   \<and> phase wounded_bane = 1 \<and> s_health wounded_bane = 499 \<and> s_max_health wounded_bane = 1000
   \<and> check_phase_transition VILLAIN_CONFIGS wounded_bane
        = Inr (configs_after_venom, wounded_bane\<lparr> phase := 2, venom_active := True \<rparr>)
   \<and> vc_damage (configs_after_venom BANE) = 75
   \<and> vc_speed (configs_after_venom BANE) = 13 / 4
   \<and> vc_damage (configs_after_venom (villain_type (Villain configs_after_venom 5650 445 BANE))) = 75
   \<and> phase (Villain configs_after_venom 5650 445 BANE) = 1
   \<and> check_phase_transition configs_after_venom
        (wounded_bane\<lparr> phase := 2, venom_active := True, s_health := 300 \<rparr>)
        = Inr (configs_after_venom, wounded_bane\<lparr> phase := 2, venom_active := True, s_health := 300 \<rparr>)"
proof -
  have step: "check_phase_transition VILLAIN_CONFIGS wounded_bane
      = Inr (configs_after_venom, wounded_bane\<lparr> phase := 2, venom_active := True \<rparr>)"
    by (simp add: configs_after_venom_def check_phase_transition_def wounded_bane_def Villain_def
        VillainConfig_defaults_def Let_def)
  have cfg: "vc_damage (configs_after_venom BANE) = 75" "vc_speed (configs_after_venom BANE) = 13 / 4"
    "vc_phases (configs_after_venom BANE) = 2"
    by (simp_all add: configs_after_venom_def check_phase_transition_def wounded_bane_def
        Villain_def VillainConfig_defaults_def Let_def py_int_def)
  have again: "check_phase_transition configs_after_venom
        (wounded_bane\<lparr> phase := 2, venom_active := True, s_health := 300 \<rparr>)
        = Inr (configs_after_venom, wounded_bane\<lparr> phase := 2, venom_active := True, s_health := 300 \<rparr>)"
    by (rule bane_not_retriggered) (simp_all add: wounded_bane_def Villain_def VillainConfig_defaults_def)
  have b0: "vc_damage (VILLAIN_CONFIGS BANE) = 50" "vc_speed (VILLAIN_CONFIGS BANE) = 5 / 2"
    by (simp_all add: VillainConfig_defaults_def)
  have w: "phase wounded_bane = 1" "s_health wounded_bane = 499" "s_max_health wounded_bane = 1000"
    by (simp_all add: wounded_bane_def Villain_def VillainConfig_defaults_def)
  have n: "villain_type (Villain configs_after_venom 5650 445 BANE) = BANE"
    "phase (Villain configs_after_venom 5650 445 BANE) = 1"
    by (simp_all add: Villain_def Let_def)
  show ?thesis
    unfolding n(1) using b0 w step cfg(1,2) n(2) again by blast
qed

end
